theory Spec2Isabelle
  imports Complex_Main
begin

section \<open>Data model of the system database\<close>

text \<open>
  \<^verbatim>\<open>class WorkflowStatusString(Enum)\<close> of \<^verbatim>\<open>dbos/system_database.py\<close>.
\<close>

datatype WorkflowStatusString =
  PENDING | SUCCESS | ERROR | RETRIES_EXCEEDED | CANCELLED | ENQUEUED

text \<open>
  The exceptions the modelled functions raise. \<open>DBAPIError\<close> carries the SQLSTATE of the
  failed statement, \<open>AssertionError\<close> its message, the two DBOS errors the workflow id
  they are raised with.
\<close>

datatype dbos_error =
    AssertionError string
  | DBOSWorkflowConflictIDError string
  | DBOSNonExistentWorkflowError string
  | DBAPIError string

text \<open>\<^verbatim>\<open>class OperationResultInternal(TypedDict)\<close> and \<^verbatim>\<open>class RecordedResult(TypedDict)\<close>.\<close>

record OperationResultInternal =
  op_workflow_uuid :: string
  op_function_id :: int
  op_output :: "string option"
  op_error :: "string option"

record RecordedResult =
  rec_output :: "string option"
  rec_error :: "string option"

text \<open>
  A row of \<open>workflow_status\<close>, with the columns \<open>update_workflow_status\<close> writes and
  \<open>recovery_attempts\<close>; the key \<open>workflow_uuid\<close> is the key of the table.
\<close>

record status_row =
  st_status :: WorkflowStatusString
  st_name :: string
  st_class_name :: "string option"
  st_config_name :: "string option"
  st_output :: "string option"
  st_error :: "string option"
  st_executor_id :: "string option"
  st_application_version :: "string option"
  st_application_id :: "string option"
  st_request :: "string option"
  st_recovery_attempts :: int
  st_authenticated_user :: "string option"
  st_authenticated_roles :: "string option"
  st_assumed_role :: "string option"
  st_queue_name :: "string option"

text \<open>Rows of \<open>notifications\<close> and of \<open>job_queue\<close>; the tables keep their rows in storage order.\<close>

record notification =
  n_destination_uuid :: string
  n_topic :: string
  n_message :: string
  n_created_at_epoch_ms :: int

record job =
  j_workflow_uuid :: string
  j_queue_name :: string
  j_created_at_epoch_ms :: int

text \<open>
  The tables of the system database the modelled operations touch. Tables with a primary key
  are maps from the key; \<open>notifications\<close> has none and is a list of rows.
\<close>

record sysdb =
  workflow_status :: "string \<rightharpoonup> status_row"
  workflow_inputs :: "string \<rightharpoonup> string"
  operation_outputs :: "(string \<times> int) \<rightharpoonup> RecordedResult"
  notifications :: "notification list"
  job_queue :: "job list"

definition empty_sysdb :: sysdb where
  "empty_sysdb = \<lparr> workflow_status = Map.empty, workflow_inputs = Map.empty,
     operation_outputs = Map.empty, notifications = [], job_queue = [] \<rparr>"

definition dbos_null_topic :: string where
  "dbos_null_topic = ''__null__topic__''"

definition buffer_flush_batch_size :: nat where
  "buffer_flush_batch_size = 100"

section \<open>Operation outputs\<close>

text \<open>
  The column \<open>function_id\<close> of \<open>operation_outputs\<close> is a 32-bit INTEGER: a value
  outside this range is refused by the database.
\<close>

definition int32_range :: "int \<Rightarrow> bool" where
  "int32_range function_id =
     (- 2147483648 \<le> function_id \<and> function_id \<le> 2147483647)"

text \<open>
  Modelled from the spec: the schema module (\<^verbatim>\<open>dbos/schemas/system_database.py\<close>) is
  not among the sources. Section 3 of the specification gives \<open>operation_outputs\<close> the
  primary key \<open>(workflow_uuid, function_id)\<close> with an integer \<open>function_id\<close>; in the
  schema \<open>function_id\<close> is a 32-bit INTEGER and \<open>workflow_uuid\<close> is a foreign key to
  \<open>workflow_status\<close> (constraint \<open>operation_outputs_workflow_uuid_fkey\<close>).

  The INSERT into \<open>operation_outputs\<close> returns the SQLSTATE of the failure or the new
  database. \<open>fault\<close> is a failure of the statement that the tables do not decide (the
  connection, for one). With no such fault the statement fails on a \<open>function_id\<close> out
  of range (SQLSTATE 22003), on a duplicate primary key (SQLSTATE 23505, found when the row
  is inserted) and on a workflow that has no \<open>workflow_status\<close> row (SQLSTATE 23503,
  found when the statement ends), in this order.
\<close>

definition insert_operation_outputs ::
  "string option \<Rightarrow> OperationResultInternal \<Rightarrow> sysdb \<Rightarrow> string + sysdb" where
  "insert_operation_outputs fault result db =
     (case fault of
        Some sqlstate \<Rightarrow> Inl sqlstate
      | None \<Rightarrow>
          (if \<not> int32_range (op_function_id result)
           then Inl ''22003''
           else if operation_outputs db (op_workflow_uuid result, op_function_id result) \<noteq> None
           then Inl ''23505''
           else if workflow_status db (op_workflow_uuid result) = None
           then Inl ''23503''
           else Inr (db\<lparr>operation_outputs :=
                  (operation_outputs db)((op_workflow_uuid result, op_function_id result) \<mapsto>
                     \<lparr> rec_output = op_output result, rec_error = op_error result \<rparr>)\<rparr>)))"

text \<open>
  \<^verbatim>\<open>SystemDatabase.record_operation_result\<close>: the assertion
  \<^verbatim>\<open>error is None or output is None\<close>, the insert, and the mapping of SQLSTATE 23505 to
  \<open>DBOSWorkflowConflictIDError\<close>; any other database error is raised again.
\<close>

definition record_operation_result ::
  "string option \<Rightarrow> OperationResultInternal \<Rightarrow> sysdb \<Rightarrow> dbos_error + sysdb" where
  "record_operation_result fault result db =
     (if \<not> (op_error result = None \<or> op_output result = None)
      then Inl (AssertionError ''Only one of error or output can be set'')
      else (case insert_operation_outputs fault result db of
              Inl sqlstate \<Rightarrow>
                (if sqlstate = ''23505''
                 then Inl (DBOSWorkflowConflictIDError (op_workflow_uuid result))
                 else Inl (DBAPIError sqlstate))
            | Inr db' \<Rightarrow> Inr db'))"

text \<open>\<^verbatim>\<open>SystemDatabase.check_operation_execution\<close>: the journaled row, or None.\<close>

definition check_operation_execution :: "string \<Rightarrow> int \<Rightarrow> sysdb \<Rightarrow> RecordedResult option" where
  "check_operation_execution workflow_uuid function_id db =
     operation_outputs db (workflow_uuid, function_id)"

text \<open>
  A \<open>workflow_status\<close> row as the INSERT of \<open>update_workflow_status\<close> creates it for a
  workflow named \<open>wf\<close> with every optional column null; used to build example databases.
\<close>

definition example_row :: "WorkflowStatusString \<Rightarrow> status_row" where
  "example_row st =
     \<lparr> st_status = st, st_name = ''wf'', st_class_name = None, st_config_name = None,
       st_output = None, st_error = None, st_executor_id = None,
       st_application_version = None, st_application_id = None, st_request = None,
       st_recovery_attempts = 0, st_authenticated_user = None,
       st_authenticated_roles = None, st_assumed_role = None, st_queue_name = None \<rparr>"

section \<open>Transactions\<close>

text \<open>
  \<^verbatim>\<open>async with self.async_engine.begin() as c\<close>: the block commits when it ends
  normally and rolls back when an exception leaves it. The body returns the exception or its
  value and the database it wrote; the transaction returns the same outcome together with
  the database as it is afterwards, which is the starting one after an exception.
\<close>

definition begin_transaction ::
  "(sysdb \<Rightarrow> dbos_error + 'a \<times> sysdb) \<Rightarrow> sysdb \<Rightarrow> (dbos_error + 'a) \<times> sysdb" where
  "begin_transaction body db =
     (case body db of
        Inl e \<Rightarrow> (Inl e, db)
      | Inr (v, db') \<Rightarrow> (Inr v, db'))"

section \<open>Messaging: send\<close>

text \<open>
  Modelled from the spec: the schema module (\<^verbatim>\<open>dbos/schemas/system_database.py\<close>) is
  not among the sources. Section 3 of the specification gives \<open>notifications\<close> the
  columns \<open>destination_uuid\<close> (a foreign key to \<open>workflow_status\<close>), \<open>topic\<close>,
  \<open>message\<close> and the server-set \<open>created_at_epoch_ms\<close>, and no key of its own. The
  INSERT appends a row stamped with the server's clock \<open>now_ms\<close>; with no other fault it
  fails exactly when the destination has no \<open>workflow_status\<close> row, SQLSTATE 23503.
\<close>

definition insert_notifications ::
  "string option \<Rightarrow> int \<Rightarrow> string \<Rightarrow> string \<Rightarrow> string \<Rightarrow> sysdb \<Rightarrow> string + sysdb" where
  "insert_notifications fault now_ms destination_uuid topic message db =
     (case fault of
        Some sqlstate \<Rightarrow> Inl sqlstate
      | None \<Rightarrow>
          (if workflow_status db destination_uuid = None
           then Inl ''23503''
           else Inr (db\<lparr>notifications := notifications db @
                  [\<lparr> n_destination_uuid = destination_uuid, n_topic = topic,
                     n_message = message, n_created_at_epoch_ms = now_ms \<rparr>]\<rparr>)))"

text \<open>
  The body of the transaction of \<^verbatim>\<open>SystemDatabase.send\<close>. \<open>serialize\<close> is
  \<^verbatim>\<open>utils.serialize\<close>, which is not among the sources; \<open>fault_insert\<close> and
  \<open>fault_record\<close> are the faults of the two INSERT statements.
\<close>

definition send_body ::
  "('m \<Rightarrow> string) \<Rightarrow> string option \<Rightarrow> string option \<Rightarrow> int \<Rightarrow>
   string \<Rightarrow> int \<Rightarrow> string \<Rightarrow> 'm \<Rightarrow> string \<Rightarrow> sysdb \<Rightarrow> dbos_error + unit \<times> sysdb" where
  "send_body serialize fault_insert fault_record now_ms
     workflow_uuid function_id destination_uuid message topic db =
     (case check_operation_execution workflow_uuid function_id db of
        Some recorded_output \<Rightarrow> Inr ((), db)
      | None \<Rightarrow>
          (case insert_notifications fault_insert now_ms destination_uuid topic
                  (serialize message) db of
             Inl sqlstate \<Rightarrow>
               (if sqlstate = ''23503''
                then Inl (DBOSNonExistentWorkflowError destination_uuid)
                else Inl (DBAPIError sqlstate))
           | Inr db1 \<Rightarrow>
               (case record_operation_result fault_record
                       \<lparr> op_workflow_uuid = workflow_uuid, op_function_id = function_id,
                         op_output = None, op_error = None \<rparr> db1 of
                  Inl e \<Rightarrow> Inl e
                | Inr db2 \<Rightarrow> Inr ((), db2))))"

text \<open>\<^verbatim>\<open>SystemDatabase.send\<close>: the default of the topic, then the transaction.\<close>

definition send ::
  "('m \<Rightarrow> string) \<Rightarrow> string option \<Rightarrow> string option \<Rightarrow> int \<Rightarrow>
   string \<Rightarrow> int \<Rightarrow> string \<Rightarrow> 'm \<Rightarrow> string option \<Rightarrow> sysdb \<Rightarrow>
   (dbos_error + unit) \<times> sysdb" where
  "send serialize fault_insert fault_record now_ms
     workflow_uuid function_id destination_uuid message topic db =
     begin_transaction
       (send_body serialize fault_insert fault_record now_ms workflow_uuid function_id
          destination_uuid message (case topic of Some t \<Rightarrow> t | None \<Rightarrow> dbos_null_topic))
       db"

section \<open>Durable sleep\<close>

text \<open>
  \<^verbatim>\<open>SystemDatabase.sleep\<close>. Time is a real number of seconds. \<open>now_journal\<close> is the
  reading of \<^verbatim>\<open>time.time()\<close> that computes the end time (taken only when nothing is
  journaled), \<open>now_wait\<close> the reading that computes the duration. The check and the insert
  run in two transactions of their own: \<open>concurrent\<close> is what other journalers commit
  between them. The result is the duration returned and the time spent in
  \<^verbatim>\<open>time.sleep\<close>, with the database left behind.
\<close>

definition sleep ::
  "(real \<Rightarrow> string) \<Rightarrow> (string \<Rightarrow> real) \<Rightarrow> (sysdb \<Rightarrow> sysdb) \<Rightarrow> string option \<Rightarrow>
   real \<Rightarrow> real \<Rightarrow> string \<Rightarrow> int \<Rightarrow> real \<Rightarrow> bool \<Rightarrow> sysdb \<Rightarrow>
   (dbos_error + real \<times> real) \<times> sysdb" where
  "sleep serialize deserialize concurrent fault now_journal now_wait
     workflow_uuid function_id seconds skip_sleep db =
     (case check_operation_execution workflow_uuid function_id db of
        Some recorded_output \<Rightarrow>
          (case rec_output recorded_output of
             None \<Rightarrow> (Inl (AssertionError ''no recorded end time''), db)
           | Some out \<Rightarrow>
               (let end_time = deserialize out;
                    duration = max 0 (end_time - now_wait)
                in (Inr (duration, if skip_sleep then 0 else duration), db)))
      | None \<Rightarrow>
          (let end_time = now_journal + seconds;
               duration = max 0 (end_time - now_wait);
               db1 = concurrent db
           in (case record_operation_result fault
                      \<lparr> op_workflow_uuid = workflow_uuid, op_function_id = function_id,
                        op_output = Some (serialize end_time), op_error = None \<rparr> db1 of
                 Inl (DBOSWorkflowConflictIDError w) \<Rightarrow>
                   (Inr (duration, if skip_sleep then 0 else duration), db1)
               | Inl e \<Rightarrow> (Inl e, db1)
               | Inr db2 \<Rightarrow> (Inr (duration, if skip_sleep then 0 else duration), db2))))"

section \<open>Messaging: the consuming step of recv\<close>

text \<open>
  The common table expression \<open>oldest_entry\<close>: the rows of \<open>notifications\<close> for the
  destination and topic, ordered by \<open>created_at_epoch_ms\<close> ascending, LIMIT 1.
\<close>

definition oldest_entry :: "string \<Rightarrow> string \<Rightarrow> sysdb \<Rightarrow> notification list" where
  "oldest_entry workflow_uuid topic db =
     take 1 (sort_key n_created_at_epoch_ms
       (filter (\<lambda>n. n_destination_uuid n = workflow_uuid \<and> n_topic n = topic)
          (notifications db)))"

text \<open>
  The DELETE joins \<open>notifications\<close> with \<open>oldest_entry\<close> on \<open>destination_uuid\<close>,
  \<open>topic\<close> and \<open>created_at_epoch_ms\<close>: it deletes every row that agrees with the
  selected one on these three columns and returns the messages of the deleted rows.
\<close>

definition delete_oldest_entry :: "string \<Rightarrow> string \<Rightarrow> sysdb \<Rightarrow> string list \<times> sysdb" where
  "delete_oldest_entry workflow_uuid topic db =
     (let joined = (\<lambda>n. list_ex (\<lambda>oldest.
             n_destination_uuid n = n_destination_uuid oldest \<and>
             n_topic n = n_topic oldest \<and>
             n_created_at_epoch_ms n = n_created_at_epoch_ms oldest)
           (oldest_entry workflow_uuid topic db))
      in (map n_message (filter joined (notifications db)),
          db\<lparr>notifications := filter (\<lambda>n. \<not> joined n) (notifications db)\<rparr>))"

text \<open>
  The last transaction of \<^verbatim>\<open>SystemDatabase.recv\<close> (``Transactionally consume and
  return the message if it's in the database, otherwise return null''), after the topic has
  been defaulted. A Python value is \<open>'v option\<close>, \<open>None\<close> being Python's \<open>None\<close>;
  \<open>serialize\<close> and \<open>deserialize\<close> are those of \<^verbatim>\<open>dbos.utils\<close>.
\<close>

definition recv_consume ::
  "('v option \<Rightarrow> string) \<Rightarrow> (string \<Rightarrow> 'v option) \<Rightarrow> string option \<Rightarrow>
   string \<Rightarrow> int \<Rightarrow> string \<Rightarrow> sysdb \<Rightarrow> (dbos_error + 'v option) \<times> sysdb" where
  "recv_consume serialize deserialize fault workflow_uuid function_id topic db =
     begin_transaction
       (\<lambda>c. case delete_oldest_entry workflow_uuid topic c of
          (rows, c1) \<Rightarrow>
            (let message = (case rows of [] \<Rightarrow> None | r # rs \<Rightarrow> deserialize r)
             in (case record_operation_result fault
                        \<lparr> op_workflow_uuid = workflow_uuid, op_function_id = function_id,
                          op_output = Some (serialize message), op_error = None \<rparr> c1 of
                   Inl e \<Rightarrow> Inl e
                 | Inr c2 \<Rightarrow> Inr (message, c2))))
       db"

section \<open>Workflow status: set_workflow_status\<close>

text \<open>
  The statement \<^verbatim>\<open>sa.update(SystemSchema.workflow_status).where(
  SystemSchema.workflow_inputs.c.workflow_uuid == workflow_uuid).values(...)\<close>. Its
  criterion names a column of \<open>workflow_inputs\<close>, not of the table it updates, so the
  statement is \<^verbatim>\<open>UPDATE workflow_status SET ... FROM workflow_inputs WHERE
  workflow_inputs.workflow_uuid = :uuid\<close>: a row of \<open>workflow_status\<close> is updated when
  some row of \<open>workflow_inputs\<close> joined to it passes the criterion. The criterion does not
  mention the \<open>workflow_status\<close> row, so every row of \<open>workflow_status\<close> is updated when
  \<open>workflow_inputs\<close> has a row for the uuid, and none is otherwise.
\<close>

definition update_workflow_status_where_inputs ::
  "string \<Rightarrow> (status_row \<Rightarrow> status_row) \<Rightarrow> sysdb \<Rightarrow> sysdb" where
  "update_workflow_status_where_inputs workflow_uuid values db =
     (if workflow_inputs db workflow_uuid \<noteq> None
      then db\<lparr>workflow_status := (\<lambda>k. map_option values (workflow_status db k))\<rparr>
      else db)"

text \<open>
  \<^verbatim>\<open>SystemDatabase.set_workflow_status\<close>: one transaction with the update of
  \<open>status\<close> and, when \<open>reset_recovery_attempts\<close> is true, the update
  \<^verbatim>\<open>.values(recovery_attempts=reset_recovery_attempts)\<close>. That statement binds the
  Python bool \<open>True\<close> to the BIGINT column \<open>recovery_attempts\<close>; the database has no
  cast from boolean to bigint and refuses the statement with SQLSTATE 42846, whatever rows
  it would match, so the exception leaves the transaction and both updates are rolled back.
\<close>

definition set_workflow_status ::
  "string \<Rightarrow> WorkflowStatusString \<Rightarrow> bool \<Rightarrow> sysdb \<Rightarrow> (dbos_error + unit) \<times> sysdb" where
  "set_workflow_status workflow_uuid status reset_recovery_attempts db =
     begin_transaction
       (\<lambda>c. let c1 = update_workflow_status_where_inputs workflow_uuid
                        (\<lambda>row. row\<lparr>st_status := status\<rparr>) c
             in if reset_recovery_attempts
                then Inl (DBAPIError ''42846'')
                else Inr ((), c1))
       db"

section \<open>Queue admission\<close>

text \<open>
  The SELECT of \<^verbatim>\<open>start_queued_workflows\<close>: the \<open>workflow_uuid\<close> of the
  \<open>job_queue\<close> rows of the queue; with a concurrency bound they are ordered by
  \<open>created_at_epoch_ms\<close> ascending and limited to the bound. The bound is a count of
  workflows, a natural number (the database rejects a negative LIMIT); without a bound the
  rows come in storage order.
\<close>

definition dequeued_ids :: "string \<Rightarrow> nat option \<Rightarrow> sysdb \<Rightarrow> string list" where
  "dequeued_ids queue_name concurrency db =
     map j_workflow_uuid
       (case concurrency of
          None \<Rightarrow> filter (\<lambda>j. j_queue_name j = queue_name) (job_queue db)
        | Some n \<Rightarrow> take n (sort_key j_created_at_epoch_ms
                     (filter (\<lambda>j. j_queue_name j = queue_name) (job_queue db))))"

text \<open>
  The loop over \<open>dequeued_ids\<close>: the UPDATE of \<open>workflow_status\<close> to \<open>PENDING\<close> where
  the uuid matches and the status is \<open>ENQUEUED\<close>; the id is appended to \<open>ret_ids\<close> when
  the statement's row count is positive.
\<close>

fun admit_dequeued :: "string list \<Rightarrow> string list \<Rightarrow> sysdb \<Rightarrow> string list \<times> sysdb" where
  "admit_dequeued [] ret_ids db = (ret_ids, db)"
| "admit_dequeued (wf_id # ids) ret_ids db =
     (case workflow_status db wf_id of
        None \<Rightarrow> admit_dequeued ids ret_ids db
      | Some row \<Rightarrow>
          (if st_status row = ENQUEUED
           then admit_dequeued ids (ret_ids @ [wf_id])
                  (db\<lparr>workflow_status := (workflow_status db)(wf_id \<mapsto> row\<lparr>st_status := PENDING\<rparr>)\<rparr>)
           else admit_dequeued ids ret_ids db))"

text \<open>
  The criterion of that UPDATE on a database: the workflow has a \<open>workflow_status\<close> row
  and its status is \<open>ENQUEUED\<close>.
\<close>

definition is_enqueued :: "sysdb \<Rightarrow> string \<Rightarrow> bool" where
  "is_enqueued db workflow_uuid =
     (case workflow_status db workflow_uuid of
        None \<Rightarrow> False
      | Some row \<Rightarrow> st_status row = ENQUEUED)"

text \<open>\<^verbatim>\<open>SystemDatabase.start_queued_workflows\<close>.\<close>

definition start_queued_workflows ::
  "string \<Rightarrow> nat option \<Rightarrow> sysdb \<Rightarrow> string list \<times> sysdb" where
  "start_queued_workflows queue_name concurrency db =
     admit_dequeued (dequeued_ids queue_name concurrency db) [] db"

section \<open>Recovery\<close>

text \<open>The calls of \<^verbatim>\<open>dbos.logger\<close> in \<^verbatim>\<open>recover_pending_workflows\<close>.\<close>

datatype log_record =
    Debug_skip_local_recovery string
  | Debug_recovering_executor string
  | Debug_pending_workflows "string list"
  | Info_recovered_pending_workflows

text \<open>
  The inner loop: \<^verbatim>\<open>execute_workflow_by_id\<close> (of \<^verbatim>\<open>dbos/_core\<close>, a parameter here)
  on each pending workflow, whose handle is appended; an exception of it ends the recovery.
\<close>

fun execute_pending ::
  "(string \<Rightarrow> dbos_error + 'h) \<Rightarrow> string list \<Rightarrow> 'h list \<Rightarrow> dbos_error + 'h list" where
  "execute_pending execute_workflow_by_id [] workflow_handles = Inr workflow_handles"
| "execute_pending execute_workflow_by_id (pending_workflow # rest) workflow_handles =
     (case execute_workflow_by_id pending_workflow of
        Inl e \<Rightarrow> Inl e
      | Inr handle \<Rightarrow>
          execute_pending execute_workflow_by_id rest (workflow_handles @ [handle]))"

text \<open>
  The loop over \<open>executor_ids\<close>. \<open>environ\<close> is \<^verbatim>\<open>os.environ\<close>, and a value of it is true
  in Python when it is not the empty string. The branch for the executor \<open>local\<close> under
  \<open>DBOS__VMID\<close> logs and has no other statement; the loop body goes on after it.
\<close>

fun recover_executors ::
  "(string \<rightharpoonup> string) \<Rightarrow> (string \<Rightarrow> string list) \<Rightarrow> (string \<Rightarrow> dbos_error + 'h) \<Rightarrow>
   string list \<Rightarrow> 'h list \<Rightarrow> log_record list \<Rightarrow> dbos_error + 'h list \<times> log_record list" where
  "recover_executors environ get_pending_workflows execute_workflow_by_id []
     workflow_handles logged = Inr (workflow_handles, logged)"
| "recover_executors environ get_pending_workflows execute_workflow_by_id (executor_id # rest)
     workflow_handles logged =
     (let log1 =
            (case environ ''DBOS__VMID'' of
               None \<Rightarrow> logged
             | Some vmid \<Rightarrow>
                 (if executor_id = ''local'' \<and> vmid \<noteq> []
                  then logged @ [Debug_skip_local_recovery vmid]
                  else logged));
          pending_workflows = get_pending_workflows executor_id;
          log2 = log1 @ [Debug_recovering_executor executor_id,
                         Debug_pending_workflows pending_workflows]
      in (case execute_pending execute_workflow_by_id pending_workflows workflow_handles of
            Inl e \<Rightarrow> Inl e
          | Inr workflow_handles' \<Rightarrow>
              recover_executors environ get_pending_workflows execute_workflow_by_id rest
                workflow_handles' log2))"

text \<open>\<^verbatim>\<open>recover_pending_workflows\<close> of \<^verbatim>\<open>dbos/_recovery.py\<close>.\<close>

definition recover_pending_workflows ::
  "(string \<rightharpoonup> string) \<Rightarrow> (string \<Rightarrow> string list) \<Rightarrow> (string \<Rightarrow> dbos_error + 'h) \<Rightarrow>
   string list \<Rightarrow> dbos_error + 'h list \<times> log_record list" where
  "recover_pending_workflows environ get_pending_workflows execute_workflow_by_id executor_ids =
     (case recover_executors environ get_pending_workflows execute_workflow_by_id
             executor_ids [] [] of
        Inl e \<Rightarrow> Inl e
      | Inr (workflow_handles, logged) \<Rightarrow>
          Inr (workflow_handles, logged @ [Info_recovered_pending_workflows]))"

section \<open>The application database journal\<close>

text \<open>
  \<^verbatim>\<open>class TransactionResultInternal(TypedDict)\<close> of
  \<^verbatim>\<open>dbos/application_database.py\<close>, and a row of \<open>transaction_outputs\<close>, whose key is
  \<open>(workflow_uuid, function_id)\<close>.
\<close>

record TransactionResultInternal =
  t_workflow_uuid :: string
  t_function_id :: int
  t_output :: "string option"
  t_error :: "string option"
  t_txn_id :: "string option"
  t_txn_snapshot :: string
  t_executor_id :: "string option"

record transaction_outputs_row =
  to_output :: "string option"
  to_error :: "string option"
  to_txn_id :: "string option"
  to_txn_snapshot :: string
  to_executor_id :: "string option"

type_synonym transaction_outputs = "(string \<times> int) \<rightharpoonup> transaction_outputs_row"

text \<open>
  The INSERT into \<open>transaction_outputs\<close>: \<open>xact_id\<close> is what
  \<^verbatim>\<open>pg_current_xact_id_if_assigned()::text\<close> gives, \<open>fault\<close> a failure the table does not
  decide; with none the statement fails exactly on a duplicate key, SQLSTATE 23505.
\<close>

definition insert_transaction_outputs ::
  "string option \<Rightarrow> string \<times> int \<Rightarrow> transaction_outputs_row \<Rightarrow> transaction_outputs \<Rightarrow>
   string + transaction_outputs" where
  "insert_transaction_outputs fault key row tbl =
     (case fault of
        Some sqlstate \<Rightarrow> Inl sqlstate
      | None \<Rightarrow> (if tbl key \<noteq> None then Inl ''23505'' else Inr (tbl(key \<mapsto> row))))"

text \<open>
  \<^verbatim>\<open>ApplicationDatabase.record_transaction_output\<close>, on the caller's session: the
  column \<open>error\<close> is the literal \<open>None\<close>, and an empty \<open>executor_id\<close> is stored as null.
\<close>

definition record_transaction_output ::
  "string option \<Rightarrow> string option \<Rightarrow> TransactionResultInternal \<Rightarrow> transaction_outputs \<Rightarrow>
   dbos_error + transaction_outputs" where
  "record_transaction_output fault xact_id output tbl =
     (case insert_transaction_outputs fault (t_workflow_uuid output, t_function_id output)
             \<lparr> to_output = t_output output, to_error = None, to_txn_id = xact_id,
               to_txn_snapshot = t_txn_snapshot output,
               to_executor_id =
                 (case t_executor_id output of
                    None \<Rightarrow> None
                  | Some e \<Rightarrow> (if e \<noteq> [] then Some e else None)) \<rparr> tbl of
        Inl sqlstate \<Rightarrow>
          (if sqlstate = ''23505''
           then Inl (DBOSWorkflowConflictIDError (t_workflow_uuid output))
           else Inl (DBAPIError sqlstate))
      | Inr tbl' \<Rightarrow> Inr tbl')"

text \<open>
  \<^verbatim>\<open>ApplicationDatabase.record_transaction_error_async\<close>, in a transaction of its own:
  the column \<open>output\<close> is the literal \<open>None\<close>.
\<close>

definition record_transaction_error_async ::
  "string option \<Rightarrow> string option \<Rightarrow> TransactionResultInternal \<Rightarrow> transaction_outputs \<Rightarrow>
   dbos_error + transaction_outputs" where
  "record_transaction_error_async fault xact_id output tbl =
     (case insert_transaction_outputs fault (t_workflow_uuid output, t_function_id output)
             \<lparr> to_output = None, to_error = t_error output, to_txn_id = xact_id,
               to_txn_snapshot = t_txn_snapshot output,
               to_executor_id =
                 (case t_executor_id output of
                    None \<Rightarrow> None
                  | Some e \<Rightarrow> (if e \<noteq> [] then Some e else None)) \<rparr> tbl of
        Inl sqlstate \<Rightarrow>
          (if sqlstate = ''23505''
           then Inl (DBOSWorkflowConflictIDError (t_workflow_uuid output))
           else Inl (DBAPIError sqlstate))
      | Inr tbl' \<Rightarrow> Inr tbl')"

section \<open>The buffered writer\<close>

text \<open>
  \<^verbatim>\<open>class WorkflowStatusInternal(TypedDict)\<close>, the value of the status buffer.
\<close>

record WorkflowStatusInternal =
  wf_workflow_uuid :: string
  wf_status :: WorkflowStatusString
  wf_name :: string
  wf_class_name :: "string option"
  wf_config_name :: "string option"
  wf_output :: "string option"
  wf_error :: "string option"
  wf_executor_id :: "string option"
  wf_app_version :: "string option"
  wf_app_id :: "string option"
  wf_request :: "string option"
  wf_recovery_attempts :: "int option"
  wf_authenticated_user :: "string option"
  wf_assumed_role :: "string option"
  wf_authenticated_roles :: "string option"
  wf_queue_name :: "string option"

text \<open>
  A Python \<open>dict\<close> keeps its keys in insertion order: it is a list of pairs with
  distinct keys. \<open>dict_pop\<close> is \<^verbatim>\<open>d.pop(k, None)\<close> on the dictionary,
  \<open>dict_set\<close> is \<^verbatim>\<open>d[k] = v\<close> (a new key goes last, a known key keeps its place) and
  \<open>dict_update\<close> is \<^verbatim>\<open>d.update(other)\<close>; \<open>map_of\<close> reads a key.
\<close>

definition dict_pop :: "'k \<Rightarrow> ('k \<times> 'v) list \<Rightarrow> ('k \<times> 'v) list" where
  "dict_pop k d = filter (\<lambda>kv. fst kv \<noteq> k) d"

definition dict_set :: "'k \<Rightarrow> 'v \<Rightarrow> ('k \<times> 'v) list \<Rightarrow> ('k \<times> 'v) list" where
  "dict_set k v d =
     (if map_of d k = None then d @ [(k, v)]
      else map (\<lambda>kv. if fst kv = k then (k, v) else kv) d)"

definition dict_update :: "('k \<times> 'v) list \<Rightarrow> ('k \<times> 'v) list \<Rightarrow> ('k \<times> 'v) list" where
  "dict_update d other = fold (\<lambda>kv. dict_set (fst kv) (snd kv)) other d"

text \<open>
  The state of a \<^verbatim>\<open>SystemDatabase\<close> object that the buffered writer uses: the
  database \<open>sdb\<close> it is connected to, the two buffers and the two sets that track the
  single-transaction workflows.
\<close>

record SystemDatabase =
  sdb :: sysdb
  workflow_status_buffer :: "(string \<times> WorkflowStatusInternal) list"
  workflow_inputs_buffer :: "(string \<times> string) list"
  exported_temp_txn_wf_status :: "string set"
  temp_txn_wf_ids :: "string set"

text \<open>
  The statement of \<^verbatim>\<open>update_workflow_status\<close>: an INSERT of the status with, on a
  conflict on \<open>workflow_uuid\<close>, an update of \<open>status\<close>, \<open>output\<close> and \<open>error\<close> under
  \<open>replace\<close>, an increment of \<open>recovery_attempts\<close> under \<open>in_recovery\<close>, and nothing
  otherwise. The INSERT gives no \<open>recovery_attempts\<close>; the column's default is 0
  (section 3 of the specification). \<open>fault\<close> is a failure of the statement.
\<close>

definition upsert_workflow_status ::
  "string option \<Rightarrow> WorkflowStatusInternal \<Rightarrow> bool \<Rightarrow> bool \<Rightarrow> sysdb \<Rightarrow> string + sysdb" where
  "upsert_workflow_status fault status replace in_recovery db =
     (case fault of
        Some sqlstate \<Rightarrow> Inl sqlstate
      | None \<Rightarrow>
          Inr (db\<lparr>workflow_status := (workflow_status db)(wf_workflow_uuid status \<mapsto>
            (case workflow_status db (wf_workflow_uuid status) of
               None \<Rightarrow>
                 \<lparr> st_status = wf_status status, st_name = wf_name status,
                   st_class_name = wf_class_name status,
                   st_config_name = wf_config_name status,
                   st_output = wf_output status, st_error = wf_error status,
                   st_executor_id = wf_executor_id status,
                   st_application_version = wf_app_version status,
                   st_application_id = wf_app_id status,
                   st_request = wf_request status,
                   st_recovery_attempts = 0,
                   st_authenticated_user = wf_authenticated_user status,
                   st_authenticated_roles = wf_authenticated_roles status,
                   st_assumed_role = wf_assumed_role status,
                   st_queue_name = wf_queue_name status \<rparr>
             | Some row \<Rightarrow>
                 (if replace
                  then row\<lparr>st_status := wf_status status, st_output := wf_output status,
                           st_error := wf_error status\<rparr>
                  else if in_recovery
                  then row\<lparr>st_recovery_attempts := st_recovery_attempts row + 1\<rparr>
                  else row)))\<rparr>))"

text \<open>
  \<^verbatim>\<open>SystemDatabase.update_workflow_status\<close> on the connection of the caller: the
  statement, and then the record that the status of a single-transaction workflow has been
  exported. An exception of the statement leaves before that record.
\<close>

definition update_workflow_status ::
  "string option \<Rightarrow> WorkflowStatusInternal \<Rightarrow> bool \<Rightarrow> bool \<Rightarrow> SystemDatabase \<Rightarrow>
   string + SystemDatabase" where
  "update_workflow_status fault status replace in_recovery s =
     (case upsert_workflow_status fault status replace in_recovery (sdb s) of
        Inl sqlstate \<Rightarrow> Inl sqlstate
      | Inr db' \<Rightarrow>
          Inr (if wf_workflow_uuid status \<in> temp_txn_wf_ids s
               then s\<lparr>sdb := db',
                      exported_temp_txn_wf_status :=
                        insert (wf_workflow_uuid status) (exported_temp_txn_wf_status s)\<rparr>
               else s\<lparr>sdb := db'\<rparr>))"

text \<open>
  The statement of \<^verbatim>\<open>update_workflow_inputs\<close>: INSERT ... ON CONFLICT DO NOTHING.
  \<open>workflow_inputs.workflow_uuid\<close> has a foreign key to \<open>workflow_status\<close> (the comment
  in \<^verbatim>\<open>flush_workflow_buffers\<close> and section 3 of the specification), so an insert for a
  workflow without a status row fails with SQLSTATE 23503.
\<close>

definition insert_workflow_inputs ::
  "string option \<Rightarrow> string \<Rightarrow> string \<Rightarrow> sysdb \<Rightarrow> string + sysdb" where
  "insert_workflow_inputs fault workflow_uuid inputs db =
     (case fault of
        Some sqlstate \<Rightarrow> Inl sqlstate
      | None \<Rightarrow>
          (if workflow_inputs db workflow_uuid \<noteq> None then Inr db
           else if workflow_status db workflow_uuid = None then Inl ''23503''
           else Inr (db\<lparr>workflow_inputs := (workflow_inputs db)(workflow_uuid \<mapsto> inputs)\<rparr>)))"

text \<open>
  \<^verbatim>\<open>SystemDatabase.update_workflow_inputs\<close> on the connection of the caller: the
  statement, and then the clean-up of the two tracking sets.
\<close>

definition update_workflow_inputs ::
  "string option \<Rightarrow> string \<Rightarrow> string \<Rightarrow> SystemDatabase \<Rightarrow> string + SystemDatabase" where
  "update_workflow_inputs fault workflow_uuid inputs s =
     (case insert_workflow_inputs fault workflow_uuid inputs (sdb s) of
        Inl sqlstate \<Rightarrow> Inl sqlstate
      | Inr db' \<Rightarrow>
          Inr (if workflow_uuid \<in> temp_txn_wf_ids s
               then s\<lparr>sdb := db',
                      exported_temp_txn_wf_status :=
                        exported_temp_txn_wf_status s - {workflow_uuid},
                      temp_txn_wf_ids := temp_txn_wf_ids s - {workflow_uuid}\<rparr>
               else s\<lparr>sdb := db'\<rparr>))"

text \<open>
  The \<open>while\<close> loop of \<^verbatim>\<open>_flush_workflow_status_buffer\<close> over the snapshot
  \<open>status_iter\<close> of the buffer's keys, inside one transaction that started on \<open>db0\<close>.
  \<open>fault wf_id\<close> is the failure, if any, of the write for \<open>wf_id\<close>. On an exception the
  transaction is rolled back, the popped statuses are put back into the buffer, and the
  loop ends; the tracking sets are not restored.
\<close>

fun flush_status_loop ::
  "(string \<Rightarrow> string option) \<Rightarrow> sysdb \<Rightarrow> string list \<Rightarrow> nat \<Rightarrow>
   (string \<times> WorkflowStatusInternal) list \<Rightarrow> SystemDatabase \<Rightarrow> SystemDatabase" where
  "flush_status_loop fault db0 [] exported exported_status s = s"
| "flush_status_loop fault db0 (wf_id # status_iter) exported exported_status s =
     (if \<not> exported < buffer_flush_batch_size then s
      else (case map_of (workflow_status_buffer s) wf_id of
              None \<Rightarrow> flush_status_loop fault db0 status_iter exported exported_status s
            | Some status \<Rightarrow>
                (let s1 = s\<lparr>workflow_status_buffer :=
                             dict_pop wf_id (workflow_status_buffer s)\<rparr>;
                     exported_status' = dict_set wf_id status exported_status
                 in (case update_workflow_status (fault wf_id) status True False s1 of
                       Inr s2 \<Rightarrow>
                         flush_status_loop fault db0 status_iter (exported + 1)
                           exported_status' s2
                     | Inl e \<Rightarrow>
                         s1\<lparr>sdb := db0,
                            workflow_status_buffer :=
                              dict_update (workflow_status_buffer s1) exported_status'\<rparr>))))"

text \<open>
  \<^verbatim>\<open>SystemDatabase._flush_workflow_status_buffer\<close>.
\<close>

definition flush_workflow_status_buffer ::
  "(string \<Rightarrow> string option) \<Rightarrow> SystemDatabase \<Rightarrow> SystemDatabase" where
  "flush_workflow_status_buffer fault s =
     (if length (workflow_status_buffer s) = 0 then s
      else flush_status_loop fault (sdb s) (map fst (workflow_status_buffer s)) 0 [] s)"

text \<open>
  The \<open>while\<close> loop of \<^verbatim>\<open>_flush_workflow_inputs_buffer\<close>. A key that is not in
  \<open>exported_temp_txn_wf_status\<close> is skipped and stays in the buffer
  (\<^verbatim>\<open>if wf_id not in self._exported_temp_txn_wf_status: continue\<close>).
\<close>

fun flush_inputs_loop ::
  "(string \<Rightarrow> string option) \<Rightarrow> sysdb \<Rightarrow> string list \<Rightarrow> nat \<Rightarrow>
   (string \<times> string) list \<Rightarrow> SystemDatabase \<Rightarrow> SystemDatabase" where
  "flush_inputs_loop fault db0 [] exported exported_inputs s = s"
| "flush_inputs_loop fault db0 (wf_id # input_iter) exported exported_inputs s =
     (if \<not> exported < buffer_flush_batch_size then s
      else if wf_id \<notin> exported_temp_txn_wf_status s
      then flush_inputs_loop fault db0 input_iter exported exported_inputs s
      else (case map_of (workflow_inputs_buffer s) wf_id of
              None \<Rightarrow> flush_inputs_loop fault db0 input_iter exported exported_inputs s
            | Some inputs \<Rightarrow>
                (let s1 = s\<lparr>workflow_inputs_buffer :=
                             dict_pop wf_id (workflow_inputs_buffer s)\<rparr>;
                     exported_inputs' = dict_set wf_id inputs exported_inputs
                 in (case update_workflow_inputs (fault wf_id) wf_id inputs s1 of
                       Inr s2 \<Rightarrow>
                         flush_inputs_loop fault db0 input_iter (exported + 1)
                           exported_inputs' s2
                     | Inl e \<Rightarrow>
                         s1\<lparr>sdb := db0,
                            workflow_inputs_buffer :=
                              dict_update (workflow_inputs_buffer s1) exported_inputs'\<rparr>))))"

text \<open>
  \<^verbatim>\<open>SystemDatabase._flush_workflow_inputs_buffer\<close>.
\<close>

definition flush_workflow_inputs_buffer ::
  "(string \<Rightarrow> string option) \<Rightarrow> SystemDatabase \<Rightarrow> SystemDatabase" where
  "flush_workflow_inputs_buffer fault s =
     (if length (workflow_inputs_buffer s) = 0 then s
      else flush_inputs_loop fault (sdb s) (map fst (workflow_inputs_buffer s)) 0 [] s)"

text \<open>
  One pass of the loop of \<^verbatim>\<open>SystemDatabase.flush_workflow_buffers\<close>: the status
  buffer is flushed, then the inputs buffer, each in a transaction of its own.
\<close>

definition flush_workflow_buffers_pass ::
  "(string \<Rightarrow> string option) \<Rightarrow> (string \<Rightarrow> string option) \<Rightarrow> SystemDatabase \<Rightarrow>
   SystemDatabase" where
  "flush_workflow_buffers_pass fault_status fault_inputs s =
     flush_workflow_inputs_buffer fault_inputs (flush_workflow_status_buffer fault_status s)"

text \<open>
  \<^verbatim>\<open>buffer_workflow_status\<close> and \<^verbatim>\<open>buffer_workflow_inputs\<close>.
\<close>

definition buffer_workflow_status :: "WorkflowStatusInternal \<Rightarrow> SystemDatabase \<Rightarrow> SystemDatabase" where
  "buffer_workflow_status status s =
     s\<lparr>workflow_status_buffer :=
         dict_set (wf_workflow_uuid status) status (workflow_status_buffer s)\<rparr>"

definition buffer_workflow_inputs :: "string \<Rightarrow> string \<Rightarrow> SystemDatabase \<Rightarrow> SystemDatabase" where
  "buffer_workflow_inputs workflow_id inputs s =
     s\<lparr>workflow_inputs_buffer := dict_set workflow_id inputs (workflow_inputs_buffer s),
       temp_txn_wf_ids := insert workflow_id (temp_txn_wf_ids s)\<rparr>"

text \<open>
  A status with every optional field null, and the object as \<^verbatim>\<open>__init__\<close> leaves it
  (empty buffers and sets) on a database; used to build examples.
\<close>

definition example_status :: "string \<Rightarrow> WorkflowStatusString \<Rightarrow> WorkflowStatusInternal" where
  "example_status workflow_uuid st =
     \<lparr> wf_workflow_uuid = workflow_uuid, wf_status = st, wf_name = ''wf'',
       wf_class_name = None, wf_config_name = None, wf_output = None, wf_error = None,
       wf_executor_id = None, wf_app_version = None, wf_app_id = None, wf_request = None,
       wf_recovery_attempts = None, wf_authenticated_user = None, wf_assumed_role = None,
       wf_authenticated_roles = None, wf_queue_name = None \<rparr>"

definition init_SystemDatabase :: "sysdb \<Rightarrow> SystemDatabase" where
  "init_SystemDatabase db =
     \<lparr> sdb = db, workflow_status_buffer = [], workflow_inputs_buffer = [],
       exported_temp_txn_wf_status = {}, temp_txn_wf_ids = {} \<rparr>"

section \<open>Theorems on the operation outputs\<close>

text \<open>
  C1 (as the code has it). \<open>record_operation_result\<close> fails its assertion exactly when
  output and error are both non-null. A result with at most one of them non-null, also the
  one with both null that \<open>send\<close> records, passes the assertion. With no other database
  fault and a \<open>function_id\<close> in the range of the column, it is then inserted under
  \<open>(workflow_uuid, function_id)\<close> when that key is free and the workflow has its
  \<open>workflow_status\<close> row, raises \<open>DBOSWorkflowConflictIDError\<close> when the key is taken,
  and raises the database's foreign-key error when the key is free and the workflow has no
  \<open>workflow_status\<close> row; a \<open>function_id\<close> out of range raises the database's error.
\<close>

theorem record_operation_result_assertion:
  "(op_output result \<noteq> None \<and> op_error result \<noteq> None \<longrightarrow>
      record_operation_result fault result db =
        Inl (AssertionError ''Only one of error or output can be set''))
   \<and> ((op_output result = None \<or> op_error result = None) \<and>
        int32_range (op_function_id result) \<and>
        operation_outputs db (op_workflow_uuid result, op_function_id result) = None \<and>
        workflow_status db (op_workflow_uuid result) \<noteq> None \<longrightarrow>
      record_operation_result None result db =
        Inr (db\<lparr>operation_outputs :=
               (operation_outputs db)((op_workflow_uuid result, op_function_id result) \<mapsto>
                  \<lparr> rec_output = op_output result, rec_error = op_error result \<rparr>)\<rparr>))
   \<and> ((op_output result = None \<or> op_error result = None) \<and>
        int32_range (op_function_id result) \<and>
        operation_outputs db (op_workflow_uuid result, op_function_id result) \<noteq> None \<longrightarrow>
      record_operation_result None result db =
        Inl (DBOSWorkflowConflictIDError (op_workflow_uuid result)))
   \<and> ((op_output result = None \<or> op_error result = None) \<and>
        int32_range (op_function_id result) \<and>
        operation_outputs db (op_workflow_uuid result, op_function_id result) = None \<and>
        workflow_status db (op_workflow_uuid result) = None \<longrightarrow>
      record_operation_result None result db = Inl (DBAPIError ''23503''))
   \<and> ((op_output result = None \<or> op_error result = None) \<and>
        \<not> int32_range (op_function_id result) \<longrightarrow>
      record_operation_result None result db = Inl (DBAPIError ''22003''))"
  by (auto simp: record_operation_result_def insert_operation_outputs_def)

text \<open>
  The scenario S1 of the specification on a database where \<open>W\<close> has its status row: a
  result with both fields set, a first record of step 3, a second one on the taken key; and
  a record for a workflow \<open>V\<close> that has no status row.
\<close>

theorem record_operation_result_assertion_witness:
  "record_operation_result None
     \<lparr> op_workflow_uuid = ''W'', op_function_id = 3,
       op_output = Some ''a'', op_error = Some ''e'' \<rparr>
     (empty_sysdb\<lparr>workflow_status := [''W'' \<mapsto> example_row PENDING]\<rparr>) =
     Inl (AssertionError ''Only one of error or output can be set'')
   \<and> record_operation_result None
     \<lparr> op_workflow_uuid = ''W'', op_function_id = 3,
       op_output = Some ''a'', op_error = None \<rparr>
     (empty_sysdb\<lparr>workflow_status := [''W'' \<mapsto> example_row PENDING]\<rparr>) =
     Inr (empty_sysdb\<lparr>workflow_status := [''W'' \<mapsto> example_row PENDING],
            operation_outputs :=
              [(''W'', 3) \<mapsto> \<lparr> rec_output = Some ''a'', rec_error = None \<rparr>]\<rparr>)
   \<and> record_operation_result None
     \<lparr> op_workflow_uuid = ''W'', op_function_id = 3,
       op_output = Some ''b'', op_error = None \<rparr>
     (empty_sysdb\<lparr>workflow_status := [''W'' \<mapsto> example_row PENDING],
            operation_outputs :=
              [(''W'', 3) \<mapsto> \<lparr> rec_output = Some ''a'', rec_error = None \<rparr>]\<rparr>) =
     Inl (DBOSWorkflowConflictIDError ''W'')
   \<and> record_operation_result None
     \<lparr> op_workflow_uuid = ''V'', op_function_id = 3,
       op_output = Some ''a'', op_error = None \<rparr>
     (empty_sysdb\<lparr>workflow_status := [''W'' \<mapsto> example_row PENDING]\<rparr>) =
     Inl (DBAPIError ''23503'')"
  using
    record_operation_result_assertion
      [where result = "\<lparr> op_workflow_uuid = ''W'', op_function_id = 3,
         op_output = Some ''a'', op_error = Some ''e'' \<rparr>"
       and fault = None
       and db = "empty_sysdb\<lparr>workflow_status := [''W'' \<mapsto> example_row PENDING]\<rparr>"]
    record_operation_result_assertion
      [where result = "\<lparr> op_workflow_uuid = ''W'', op_function_id = 3,
         op_output = Some ''a'', op_error = None \<rparr>"
       and fault = None
       and db = "empty_sysdb\<lparr>workflow_status := [''W'' \<mapsto> example_row PENDING]\<rparr>"]
    record_operation_result_assertion
      [where result = "\<lparr> op_workflow_uuid = ''W'', op_function_id = 3,
         op_output = Some ''b'', op_error = None \<rparr>"
       and fault = None
       and db = "empty_sysdb\<lparr>workflow_status := [''W'' \<mapsto> example_row PENDING],
            operation_outputs :=
              [(''W'', 3) \<mapsto> \<lparr> rec_output = Some ''a'', rec_error = None \<rparr>]\<rparr>"]
    record_operation_result_assertion
      [where result = "\<lparr> op_workflow_uuid = ''V'', op_function_id = 3,
         op_output = Some ''a'', op_error = None \<rparr>"
       and fault = None
       and db = "empty_sysdb\<lparr>workflow_status := [''W'' \<mapsto> example_row PENDING]\<rparr>"]
  by (simp add: empty_sysdb_def int32_range_def)

text \<open>
  C1, as the specification states it, asks that a result with output and error both null
  fails the assertion and inserts no row. On a database where the workflow \<open>W\<close> has its
  status row, the code inserts the row.
\<close>

theorem record_operation_result_both_null_counterexample:
  "record_operation_result None
     \<lparr> op_workflow_uuid = ''W'', op_function_id = 1,
       op_output = None, op_error = None \<rparr>
     (empty_sysdb\<lparr>workflow_status := [''W'' \<mapsto> example_row PENDING]\<rparr>) =
     Inr (empty_sysdb\<lparr>workflow_status := [''W'' \<mapsto> example_row PENDING],
            operation_outputs :=
              [(''W'', 1) \<mapsto> \<lparr> rec_output = None, rec_error = None \<rparr>]\<rparr>)"
  by (simp add: record_operation_result_def insert_operation_outputs_def empty_sysdb_def
        int32_range_def)

section \<open>Theorems on send\<close>

text \<open>
  C4. \<open>send\<close> is idempotent and maps errors by kind. When \<open>(workflow_uuid, function_id)\<close>
  is already journaled it returns and leaves the database as it was, so it inserts no
  notification. Otherwise it inserts the notification, with the topic defaulted to
  \<open>__null__topic__\<close> and the serialized message: a failure of that insert raises
  \<open>DBOSNonExistentWorkflowError\<close> exactly when its SQLSTATE is 23503, which is what a
  destination without a \<open>workflow_status\<close> row gives. When the insert succeeds the
  operation is journaled with output and error null, which needs the caller's own
  \<open>workflow_status\<close> row and a \<open>function_id\<close> in range. The two writes are one
  transaction: a failure of the journal insert (a fault of the statement, or a caller
  without a status row) is raised and leaves the database unchanged, so the notification is
  not kept; whenever \<open>send\<close> raises, the database is unchanged; and whenever a send that
  was not journaled returns, both the notification and the journal row are there.
\<close>

theorem send_idempotent_and_errors:
  "(check_operation_execution workflow_uuid function_id db \<noteq> None \<longrightarrow>
      send serialize fault_insert fault_record now_ms
        workflow_uuid function_id destination_uuid message topic db = (Inr (), db))
   \<and> (check_operation_execution workflow_uuid function_id db = None \<and>
        workflow_status db destination_uuid \<noteq> None \<and>
        workflow_status db workflow_uuid \<noteq> None \<and> int32_range function_id \<longrightarrow>
      send serialize None None now_ms
        workflow_uuid function_id destination_uuid message topic db =
        (Inr (),
         db\<lparr>notifications := notifications db @
               [\<lparr> n_destination_uuid = destination_uuid,
                  n_topic = (case topic of Some t \<Rightarrow> t | None \<Rightarrow> dbos_null_topic),
                  n_message = serialize message, n_created_at_epoch_ms = now_ms \<rparr>],
            operation_outputs := (operation_outputs db)((workflow_uuid, function_id) \<mapsto>
               \<lparr> rec_output = None, rec_error = None \<rparr>)\<rparr>))
   \<and> (check_operation_execution workflow_uuid function_id db = None \<and>
        workflow_status db destination_uuid = None \<longrightarrow>
      send serialize None fault_record now_ms
        workflow_uuid function_id destination_uuid message topic db =
        (Inl (DBOSNonExistentWorkflowError destination_uuid), db))
   \<and> (check_operation_execution workflow_uuid function_id db = None \<longrightarrow>
      (send serialize (Some sqlstate) fault_record now_ms
         workflow_uuid function_id destination_uuid message topic db =
         (Inl (DBOSNonExistentWorkflowError destination_uuid), db))
      = (sqlstate = ''23503''))
   \<and> (check_operation_execution workflow_uuid function_id db = None \<and>
        workflow_status db destination_uuid \<noteq> None \<longrightarrow>
      send serialize None (Some sqlstate) now_ms
        workflow_uuid function_id destination_uuid message topic db =
        (Inl (if sqlstate = ''23505'' then DBOSWorkflowConflictIDError workflow_uuid
              else DBAPIError sqlstate), db))
   \<and> (check_operation_execution workflow_uuid function_id db = None \<and>
        workflow_status db destination_uuid \<noteq> None \<and>
        workflow_status db workflow_uuid = None \<and> int32_range function_id \<longrightarrow>
      send serialize None None now_ms
        workflow_uuid function_id destination_uuid message topic db =
        (Inl (DBAPIError ''23503''), db))
   \<and> (\<forall>e db'. send serialize fault_insert fault_record now_ms
         workflow_uuid function_id destination_uuid message topic db = (Inl e, db')
       \<longrightarrow> db' = db)
   \<and> (\<forall>db'. check_operation_execution workflow_uuid function_id db = None \<and>
         send serialize fault_insert fault_record now_ms
           workflow_uuid function_id destination_uuid message topic db = (Inr (), db')
       \<longrightarrow> notifications db' = notifications db @
               [\<lparr> n_destination_uuid = destination_uuid,
                  n_topic = (case topic of Some t \<Rightarrow> t | None \<Rightarrow> dbos_null_topic),
                  n_message = serialize message, n_created_at_epoch_ms = now_ms \<rparr>]
           \<and> operation_outputs db' (workflow_uuid, function_id) =
               Some \<lparr> rec_output = None, rec_error = None \<rparr>)"
  by (auto simp: send_def send_body_def begin_transaction_def check_operation_execution_def
        insert_notifications_def record_operation_result_def insert_operation_outputs_def
      split: option.splits sum.splits if_splits)

text \<open>
  The scenario S2 of the specification, sent by a workflow \<open>A\<close> that has its status row:
  a send to a workflow that does not exist, a send to one that does (with no topic, then
  repeated), and a send whose journal insert fails, with a serializer that prints 42.
\<close>

theorem send_idempotent_and_errors_witness:
  "send (\<lambda>m::int. if m = 42 then ''42'' else ''null'') None None 1000
     ''A'' 1 ''W'' 42 (Some ''t'')
     (empty_sysdb\<lparr>workflow_status := [''A'' \<mapsto> example_row PENDING]\<rparr>) =
     (Inl (DBOSNonExistentWorkflowError ''W''),
      empty_sysdb\<lparr>workflow_status := [''A'' \<mapsto> example_row PENDING]\<rparr>)
   \<and> send (\<lambda>m::int. if m = 42 then ''42'' else ''null'') None None 1000
     ''A'' 1 ''W'' 42 None
     (empty_sysdb\<lparr>workflow_status :=
        [''A'' \<mapsto> example_row PENDING, ''W'' \<mapsto> example_row PENDING]\<rparr>) =
     (Inr (),
      empty_sysdb\<lparr>workflow_status :=
          [''A'' \<mapsto> example_row PENDING, ''W'' \<mapsto> example_row PENDING],
        notifications :=
          [\<lparr> n_destination_uuid = ''W'', n_topic = ''__null__topic__'',
             n_message = ''42'', n_created_at_epoch_ms = 1000 \<rparr>],
        operation_outputs := [(''A'', 1) \<mapsto> \<lparr> rec_output = None, rec_error = None \<rparr>]\<rparr>)
   \<and> send (\<lambda>m::int. if m = 42 then ''42'' else ''null'') None None 2000
     ''A'' 1 ''W'' 42 None
     (empty_sysdb\<lparr>workflow_status :=
          [''A'' \<mapsto> example_row PENDING, ''W'' \<mapsto> example_row PENDING],
        notifications :=
          [\<lparr> n_destination_uuid = ''W'', n_topic = ''__null__topic__'',
             n_message = ''42'', n_created_at_epoch_ms = 1000 \<rparr>],
        operation_outputs := [(''A'', 1) \<mapsto> \<lparr> rec_output = None, rec_error = None \<rparr>]\<rparr>) =
     (Inr (),
      empty_sysdb\<lparr>workflow_status :=
          [''A'' \<mapsto> example_row PENDING, ''W'' \<mapsto> example_row PENDING],
        notifications :=
          [\<lparr> n_destination_uuid = ''W'', n_topic = ''__null__topic__'',
             n_message = ''42'', n_created_at_epoch_ms = 1000 \<rparr>],
        operation_outputs := [(''A'', 1) \<mapsto> \<lparr> rec_output = None, rec_error = None \<rparr>]\<rparr>)
   \<and> send (\<lambda>m::int. if m = 42 then ''42'' else ''null'') None (Some ''08006'') 1000
     ''A'' 1 ''W'' 42 None
     (empty_sysdb\<lparr>workflow_status :=
        [''A'' \<mapsto> example_row PENDING, ''W'' \<mapsto> example_row PENDING]\<rparr>) =
     (Inl (DBAPIError ''08006''),
      empty_sysdb\<lparr>workflow_status :=
        [''A'' \<mapsto> example_row PENDING, ''W'' \<mapsto> example_row PENDING]\<rparr>)"
  using
    send_idempotent_and_errors
      [where serialize = "\<lambda>m::int. if m = 42 then ''42'' else ''null''"
       and fault_record = None and now_ms = 1000 and workflow_uuid = "''A''"
       and function_id = 1 and destination_uuid = "''W''" and message = 42
       and topic = "Some ''t''"
       and db = "empty_sysdb\<lparr>workflow_status := [''A'' \<mapsto> example_row PENDING]\<rparr>"]
    send_idempotent_and_errors
      [where serialize = "\<lambda>m::int. if m = 42 then ''42'' else ''null''"
       and now_ms = 1000 and workflow_uuid = "''A''"
       and function_id = 1 and destination_uuid = "''W''" and message = 42
       and topic = None and sqlstate = "''08006''"
       and db = "empty_sysdb\<lparr>workflow_status :=
          [''A'' \<mapsto> example_row PENDING, ''W'' \<mapsto> example_row PENDING]\<rparr>"]
    send_idempotent_and_errors
      [where serialize = "\<lambda>m::int. if m = 42 then ''42'' else ''null''"
       and fault_insert = None and fault_record = None
       and now_ms = 2000 and workflow_uuid = "''A''"
       and function_id = 1 and destination_uuid = "''W''" and message = 42
       and topic = None
       and db = "empty_sysdb\<lparr>workflow_status :=
          [''A'' \<mapsto> example_row PENDING, ''W'' \<mapsto> example_row PENDING],
        notifications :=
          [\<lparr> n_destination_uuid = ''W'', n_topic = ''__null__topic__'',
             n_message = ''42'', n_created_at_epoch_ms = 1000 \<rparr>],
        operation_outputs := [(''A'', 1) \<mapsto> \<lparr> rec_output = None, rec_error = None \<rparr>]\<rparr>"]
  by (simp add: empty_sysdb_def check_operation_execution_def dbos_null_topic_def
        int32_range_def)

section \<open>Theorems on durable sleep\<close>

text \<open>
  C3. Durable sleep is idempotent. If \<open>(workflow_uuid, function_id)\<close> is journaled with an
  end time, \<open>sleep\<close> takes that end time, whatever \<open>seconds\<close> it is given, and writes
  nothing. Otherwise the end time is \<open>now + seconds\<close>, for a workflow that has its
  \<open>workflow_status\<close> row and a \<open>function_id\<close> in range: it is journaled when no
  concurrent journaler took the key, and when one did the conflict is swallowed and nothing
  is written. In every such case the call returns \<open>max 0 (end - now)\<close> and blocks for
  that long, or not at all under \<open>skip_sleep\<close>. So a second call, after a first one
  journaled its end time, waits until that end time whenever it is made and whatever
  \<open>seconds\<close> it passes, provided the serializer gives the end time back. Only the
  conflict is swallowed: the foreign-key error of a workflow without a status row, and any
  other failure of the insert, is raised.
\<close>

theorem sleep_idempotent:
  "(check_operation_execution workflow_uuid function_id db = Some recorded \<and>
      rec_output recorded = Some out \<longrightarrow>
      sleep serialize deserialize concurrent fault now_journal now_wait
        workflow_uuid function_id seconds skip_sleep db =
        (Inr (max 0 (deserialize out - now_wait),
              if skip_sleep then 0 else max 0 (deserialize out - now_wait)), db))
   \<and> (check_operation_execution workflow_uuid function_id db = None \<and>
        int32_range function_id \<and>
        operation_outputs (concurrent db) (workflow_uuid, function_id) = None \<and>
        workflow_status (concurrent db) workflow_uuid \<noteq> None \<longrightarrow>
      sleep serialize deserialize concurrent None now_journal now_wait
        workflow_uuid function_id seconds skip_sleep db =
        (Inr (max 0 (now_journal + seconds - now_wait),
              if skip_sleep then 0 else max 0 (now_journal + seconds - now_wait)),
         (concurrent db)\<lparr>operation_outputs :=
            (operation_outputs (concurrent db))((workflow_uuid, function_id) \<mapsto>
               \<lparr> rec_output = Some (serialize (now_journal + seconds)),
                 rec_error = None \<rparr>)\<rparr>))
   \<and> (check_operation_execution workflow_uuid function_id db = None \<and>
        int32_range function_id \<and>
        operation_outputs (concurrent db) (workflow_uuid, function_id) \<noteq> None \<longrightarrow>
      sleep serialize deserialize concurrent None now_journal now_wait
        workflow_uuid function_id seconds skip_sleep db =
        (Inr (max 0 (now_journal + seconds - now_wait),
              if skip_sleep then 0 else max 0 (now_journal + seconds - now_wait)),
         concurrent db))
   \<and> (check_operation_execution workflow_uuid function_id db = None \<and>
        int32_range function_id \<and>
        operation_outputs (concurrent db) (workflow_uuid, function_id) = None \<and>
        workflow_status (concurrent db) workflow_uuid \<noteq> None \<and>
        deserialize (serialize (now_journal + seconds)) = now_journal + seconds \<longrightarrow>
      (\<forall>result db'.
         sleep serialize deserialize concurrent None now_journal now_wait
           workflow_uuid function_id seconds skip_sleep db = (result, db') \<longrightarrow>
         sleep serialize deserialize concurrent' fault' now_journal' now_wait'
           workflow_uuid function_id seconds' skip_sleep' db' =
           (Inr (max 0 (now_journal + seconds - now_wait'),
                 if skip_sleep' then 0 else max 0 (now_journal + seconds - now_wait')),
            db')))
   \<and> (check_operation_execution workflow_uuid function_id db = None \<and>
        int32_range function_id \<and>
        operation_outputs (concurrent db) (workflow_uuid, function_id) = None \<and>
        workflow_status (concurrent db) workflow_uuid = None \<longrightarrow>
      sleep serialize deserialize concurrent None now_journal now_wait
        workflow_uuid function_id seconds skip_sleep db =
        (Inl (DBAPIError ''23503''), concurrent db))
   \<and> (check_operation_execution workflow_uuid function_id db = None \<and>
        sqlstate \<noteq> ''23505'' \<longrightarrow>
      sleep serialize deserialize concurrent (Some sqlstate) now_journal now_wait
        workflow_uuid function_id seconds skip_sleep db =
        (Inl (DBAPIError sqlstate), concurrent db))"
  by (auto simp: sleep_def check_operation_execution_def record_operation_result_def
        insert_operation_outputs_def Let_def
      split: option.splits sum.splits dbos_error.splits)

text \<open>
  The scenario S3 of the specification, for a workflow \<open>W\<close> that has its status row:
  \<open>sleep(W, 7, 10.0)\<close> at time 0 journals the end time 10 and returns 10; called again at
  time 5 it returns 5. The serializer prints 10 as \<open>10.0\<close> and reads it back.
\<close>

theorem sleep_idempotent_witness:
  "sleep (\<lambda>x. if x = 10 then ''10.0'' else ''0.0'')
       (\<lambda>s. if s = ''10.0'' then 10 else 0) (\<lambda>d. d) None 0 0
       ''W'' 7 10 False
       (empty_sysdb\<lparr>workflow_status := [''W'' \<mapsto> example_row PENDING]\<rparr>) =
     (Inr (10, 10),
      empty_sysdb\<lparr>workflow_status := [''W'' \<mapsto> example_row PENDING],
        operation_outputs :=
          [(''W'', 7) \<mapsto> \<lparr> rec_output = Some ''10.0'', rec_error = None \<rparr>]\<rparr>)
   \<and> sleep (\<lambda>x. if x = 10 then ''10.0'' else ''0.0'')
       (\<lambda>s. if s = ''10.0'' then 10 else 0) (\<lambda>d. d) None 5 5
       ''W'' 7 10 False
       (empty_sysdb\<lparr>workflow_status := [''W'' \<mapsto> example_row PENDING],
        operation_outputs :=
          [(''W'', 7) \<mapsto> \<lparr> rec_output = Some ''10.0'', rec_error = None \<rparr>]\<rparr>) =
     (Inr (5, 5),
      empty_sysdb\<lparr>workflow_status := [''W'' \<mapsto> example_row PENDING],
        operation_outputs :=
          [(''W'', 7) \<mapsto> \<lparr> rec_output = Some ''10.0'', rec_error = None \<rparr>]\<rparr>)"
  using
    sleep_idempotent
      [where serialize = "\<lambda>x. if x = 10 then ''10.0'' else ''0.0''"
       and deserialize = "\<lambda>s. if s = ''10.0'' then 10 else 0"
       and concurrent = "\<lambda>d. d" and now_journal = 0 and now_wait = 0
       and workflow_uuid = "''W''" and function_id = 7 and seconds = 10
       and skip_sleep = False
       and db = "empty_sysdb\<lparr>workflow_status := [''W'' \<mapsto> example_row PENDING]\<rparr>"
       and concurrent' = "\<lambda>d. d" and fault' = None and now_journal' = 5
       and now_wait' = 5 and seconds' = 10 and skip_sleep' = False]
  by (simp add: empty_sysdb_def check_operation_execution_def int32_range_def)

section \<open>Theorems on the consuming step of recv\<close>

text \<open>
  C5, at two notifications for \<open>(W, t)\<close> with the same \<open>created_at_epoch_ms\<close> (two sends
  in one millisecond). The claim has the consuming step delete exactly the oldest row and
  later calls observe the remaining messages. The DELETE joins on \<open>destination_uuid\<close>,
  \<open>topic\<close> and \<open>created_at_epoch_ms\<close>, so the first call deletes both rows and returns
  the message of one; the second call finds nothing and returns null: the message 43 is
  never received.
\<close>

theorem recv_consume_tied_timestamps:
  "recv_consume serialize deserialize None ''W'' 1 ''t''
     (empty_sysdb\<lparr>workflow_status := [''W'' \<mapsto> example_row PENDING],
        notifications :=
          [\<lparr> n_destination_uuid = ''W'', n_topic = ''t'',
             n_message = ''42'', n_created_at_epoch_ms = 1000 \<rparr>,
           \<lparr> n_destination_uuid = ''W'', n_topic = ''t'',
             n_message = ''43'', n_created_at_epoch_ms = 1000 \<rparr>]\<rparr>) =
     (Inr (deserialize ''42''),
      empty_sysdb\<lparr>workflow_status := [''W'' \<mapsto> example_row PENDING],
        notifications := [],
        operation_outputs :=
          [(''W'', 1) \<mapsto> \<lparr> rec_output = Some (serialize (deserialize ''42'')),
                              rec_error = None \<rparr>]\<rparr>)
   \<and> fst (recv_consume serialize deserialize None ''W'' 2 ''t''
     (empty_sysdb\<lparr>workflow_status := [''W'' \<mapsto> example_row PENDING],
        notifications := [],
        operation_outputs :=
          [(''W'', 1) \<mapsto> \<lparr> rec_output = Some (serialize (deserialize ''42'')),
                              rec_error = None \<rparr>]\<rparr>)) = Inr None"
  by (simp add: recv_consume_def begin_transaction_def delete_oldest_entry_def
        oldest_entry_def record_operation_result_def insert_operation_outputs_def
        empty_sysdb_def Let_def int32_range_def)

section \<open>Theorems on set_workflow_status\<close>

text \<open>
  C7, at two databases. In the first, \<open>workflow_inputs\<close> has a row for \<open>W1\<close>: setting the
  status of \<open>W1\<close> to \<open>CANCELLED\<close> also sets the status of the other workflow \<open>W2\<close>,
  which had succeeded. In the second, \<open>W3\<close> has a \<open>workflow_status\<close> row and no
  \<open>workflow_inputs\<close> row: setting its status changes nothing. The claim has the update
  change the row whose \<open>workflow_uuid\<close> is the given one, and only that row.
\<close>

theorem set_workflow_status_updates_other_rows:
  "fst (set_workflow_status ''W1'' CANCELLED False
        (empty_sysdb\<lparr>workflow_status :=
             [''W1'' \<mapsto> example_row PENDING, ''W2'' \<mapsto> example_row SUCCESS],
           workflow_inputs := [''W1'' \<mapsto> ''inputs'']\<rparr>)) = Inr ()
   \<and> workflow_status
     (snd (set_workflow_status ''W1'' CANCELLED False
        (empty_sysdb\<lparr>workflow_status :=
             [''W1'' \<mapsto> example_row PENDING, ''W2'' \<mapsto> example_row SUCCESS],
           workflow_inputs := [''W1'' \<mapsto> ''inputs'']\<rparr>))) ''W2'' =
     Some (example_row CANCELLED)
   \<and> fst (set_workflow_status ''W3'' CANCELLED False
        (empty_sysdb\<lparr>workflow_status := [''W3'' \<mapsto> example_row PENDING]\<rparr>)) = Inr ()
   \<and> workflow_status
     (snd (set_workflow_status ''W3'' CANCELLED False
        (empty_sysdb\<lparr>workflow_status := [''W3'' \<mapsto> example_row PENDING]\<rparr>))) ''W3'' =
     Some (example_row PENDING)"
  by (simp add: set_workflow_status_def update_workflow_status_where_inputs_def
        begin_transaction_def empty_sysdb_def example_row_def Let_def)

section \<open>Theorems on recovery\<close>

text \<open>
  C6, with \<open>DBOS__VMID\<close> set to \<open>vm-1\<close>, the executor ids \<open>[local]\<close>, one pending
  workflow \<open>W1\<close> of the executor \<open>local\<close> and an executor whose handle for a workflow is
  its uuid. The function logs that it skips the local recovery, and then recovers \<open>W1\<close>
  and returns its handle: the branch that logs the skip does not leave the loop body.
\<close>

theorem recover_pending_workflows_local_not_skipped:
  "recover_pending_workflows [''DBOS__VMID'' \<mapsto> ''vm-1'']
     (\<lambda>executor_id. if executor_id = ''local'' then [''W1''] else [])
     (\<lambda>workflow_uuid. Inr workflow_uuid) [''local''] =
     Inr ([''W1''],
          [Debug_skip_local_recovery ''vm-1'', Debug_recovering_executor ''local'',
           Debug_pending_workflows [''W1''], Info_recovered_pending_workflows])"
  by (simp add: recover_pending_workflows_def Let_def)

section \<open>Theorems on queue admission\<close>

lemma is_enqueued_update_other:
  "k \<noteq> w \<Longrightarrow>
   is_enqueued (db\<lparr>workflow_status := (workflow_status db)(w \<mapsto> r)\<rparr>) k = is_enqueued db k"
  by (simp add: is_enqueued_def)

lemma admit_dequeued_ids:
  "distinct ids \<Longrightarrow>
   fst (admit_dequeued ids ret_ids db) = ret_ids @ filter (is_enqueued db) ids"
proof (induction ids arbitrary: ret_ids db)
  case Nil
  then show ?case by simp
next
  case (Cons w ids)
  have other: "\<And>r. filter (is_enqueued (db\<lparr>workflow_status := (workflow_status db)(w \<mapsto> r)\<rparr>)) ids
      = filter (is_enqueued db) ids"
  proof (intro filter_cong refl)
    fix r x assume "x \<in> set ids"
    with Cons.prems have "x \<noteq> w" by auto
    then show "is_enqueued (db\<lparr>workflow_status := (workflow_status db)(w \<mapsto> r)\<rparr>) x
        = is_enqueued db x"
      by (rule is_enqueued_update_other)
  qed
  show ?case
  proof (cases "workflow_status db w")
    case None
    then have "\<not> is_enqueued db w" by (simp add: is_enqueued_def)
    with None Cons show ?thesis by simp
  next
    case (Some row)
    show ?thesis
    proof (cases "st_status row = ENQUEUED")
      case True
      with Some have "is_enqueued db w" by (simp add: is_enqueued_def)
      with Some True Cons other show ?thesis by simp
    next
      case False
      with Some have "\<not> is_enqueued db w" by (simp add: is_enqueued_def)
      with Some False Cons show ?thesis by simp
    qed
  qed
qed

lemma admit_dequeued_status:
  "distinct ids \<Longrightarrow>
   workflow_status (snd (admit_dequeued ids ret_ids db)) k =
     (if k \<in> set ids \<and> is_enqueued db k
      then map_option (\<lambda>row. row\<lparr>st_status := PENDING\<rparr>) (workflow_status db k)
      else workflow_status db k)"
proof (induction ids arbitrary: ret_ids db)
  case Nil
  then show ?case by simp
next
  case (Cons w ids)
  then show ?case
    by (auto simp: is_enqueued_def split: option.splits)
qed

lemma admit_dequeued_job_queue:
  "job_queue (snd (admit_dequeued ids ret_ids db)) = job_queue db"
  by (induction ids arbitrary: ret_ids db) (auto split: option.splits)

lemma distinct_map_insort_key:
  "distinct (map g (insort_key f x ys)) = (g x \<notin> g ` set ys \<and> distinct (map g ys))"
  by (induction ys) (auto simp: set_insort_key)

lemma distinct_map_sort_key:
  "distinct (map g xs) \<Longrightarrow> distinct (map g (sort_key f xs))"
  by (induction xs) (auto simp: distinct_map_insort_key)

lemma distinct_dequeued_ids:
  "distinct (map j_workflow_uuid (job_queue db)) \<Longrightarrow>
   distinct (dequeued_ids queue_name concurrency db)"
  by (auto simp: dequeued_ids_def distinct_map_filter distinct_map_sort_key take_map[symmetric]
        distinct_take  split: option.splits)


text \<open>
  C2. \<open>job_queue\<close> has \<open>workflow_uuid\<close> as its primary key, so its rows have distinct
  uuids. For every queue name and concurrency bound, \<open>start_queued_workflows\<close> returns,
  in the order selected, exactly those selected ids whose \<open>workflow_status\<close> row was
  \<open>ENQUEUED\<close>; each of them is \<open>PENDING\<close> afterwards, and the row of every workflow
  that is not returned is as it was. An id that is not \<open>ENQUEUED\<close> is never returned, so
  no id admitted by one call is returned by a later call on the database it leaves,
  whatever queue and bound that call is given.
\<close>

theorem start_queued_workflows_admits_enqueued:
  "distinct (map j_workflow_uuid (job_queue db)) \<Longrightarrow>
   fst (start_queued_workflows queue_name bound db) =
     filter (is_enqueued db) (dequeued_ids queue_name bound db)
   \<and> (\<forall>w \<in> set (fst (start_queued_workflows queue_name bound db)).
        is_enqueued db w \<and>
        map_option st_status
          (workflow_status (snd (start_queued_workflows queue_name bound db)) w) = Some PENDING)
   \<and> (\<forall>w. w \<notin> set (fst (start_queued_workflows queue_name bound db)) \<longrightarrow>
        workflow_status (snd (start_queued_workflows queue_name bound db)) w =
          workflow_status db w)
   \<and> set (fst (start_queued_workflows queue_name' bound'
              (snd (start_queued_workflows queue_name bound db))))
       \<inter> set (fst (start_queued_workflows queue_name bound db)) = {}"
proof -
  assume key: "distinct (map j_workflow_uuid (job_queue db))"
  let ?ids = "dequeued_ids queue_name bound db"
  let ?db' = "snd (start_queued_workflows queue_name bound db)"
  have d: "distinct ?ids" using key by (rule distinct_dequeued_ids)
  have ret: "fst (start_queued_workflows queue_name bound db) = filter (is_enqueued db) ?ids"
    using admit_dequeued_ids[OF d, of "[]" db] by (simp add: start_queued_workflows_def)
  have st: "\<And>k. workflow_status ?db' k =
     (if k \<in> set ?ids \<and> is_enqueued db k
      then map_option (\<lambda>row. row\<lparr>st_status := PENDING\<rparr>) (workflow_status db k)
      else workflow_status db k)"
    using admit_dequeued_status[OF d, of "[]" db] by (simp add: start_queued_workflows_def)
  have pend: "\<And>w. w \<in> set ?ids \<Longrightarrow> is_enqueued db w \<Longrightarrow>
      map_option st_status (workflow_status ?db' w) = Some PENDING \<and> \<not> is_enqueued ?db' w"
    by (auto simp: st is_enqueued_def split: option.splits)
  have jq: "job_queue ?db' = job_queue db"
    by (simp add: start_queued_workflows_def admit_dequeued_job_queue)
  have d': "distinct (dequeued_ids queue_name' bound' ?db')"
    using key jq by (intro distinct_dequeued_ids) simp
  have ret': "fst (start_queued_workflows queue_name' bound' ?db') =
      filter (is_enqueued ?db') (dequeued_ids queue_name' bound' ?db')"
    using admit_dequeued_ids[OF d', of "[]" ?db'] by (simp add: start_queued_workflows_def)
  have c2: "\<forall>w \<in> set (fst (start_queued_workflows queue_name bound db)).
        is_enqueued db w \<and> map_option st_status (workflow_status ?db' w) = Some PENDING"
    using pend by (auto simp: ret)
  have c3: "\<forall>w. w \<notin> set (fst (start_queued_workflows queue_name bound db)) \<longrightarrow>
        workflow_status ?db' w = workflow_status db w"
    by (auto simp: ret st)
  have c4: "set (fst (start_queued_workflows queue_name' bound' ?db'))
       \<inter> set (fst (start_queued_workflows queue_name bound db)) = {}"
    using pend by (auto simp: ret ret')
  from ret c2 c3 c4 show ?thesis by blast
qed

text \<open>
  A queue with bound 2 and three jobs stored out of order: the two oldest are selected, and
  of them \<open>W2\<close>, which is already \<open>PENDING\<close>, is not admitted.
\<close>

theorem start_queued_workflows_admits_enqueued_witness:
  "fst (start_queued_workflows ''Q'' (Some 2)
     (empty_sysdb\<lparr>workflow_status :=
          [''W1'' \<mapsto> example_row ENQUEUED, ''W2'' \<mapsto> example_row PENDING,
           ''W3'' \<mapsto> example_row ENQUEUED],
        job_queue :=
          [\<lparr> j_workflow_uuid = ''W3'', j_queue_name = ''Q'', j_created_at_epoch_ms = 3000 \<rparr>,
           \<lparr> j_workflow_uuid = ''W1'', j_queue_name = ''Q'', j_created_at_epoch_ms = 1000 \<rparr>,
           \<lparr> j_workflow_uuid = ''W2'', j_queue_name = ''Q'', j_created_at_epoch_ms = 2000 \<rparr>]\<rparr>))
     = [''W1'']"
  using start_queued_workflows_admits_enqueued
     [where queue_name = "''Q''" and bound = "Some 2"
      and db = "empty_sysdb\<lparr>workflow_status :=
          [''W1'' \<mapsto> example_row ENQUEUED, ''W2'' \<mapsto> example_row PENDING,
           ''W3'' \<mapsto> example_row ENQUEUED],
        job_queue :=
          [\<lparr> j_workflow_uuid = ''W3'', j_queue_name = ''Q'', j_created_at_epoch_ms = 3000 \<rparr>,
           \<lparr> j_workflow_uuid = ''W1'', j_queue_name = ''Q'', j_created_at_epoch_ms = 1000 \<rparr>,
           \<lparr> j_workflow_uuid = ''W2'', j_queue_name = ''Q'', j_created_at_epoch_ms = 2000 \<rparr>]\<rparr>"]
  by (simp add: empty_sysdb_def dequeued_ids_def is_enqueued_def example_row_def)

section \<open>Theorems on the application database journal\<close>

text \<open>
  C10. Whatever the argument holds in its fields \<open>output\<close> and \<open>error\<close>, the row that
  \<open>record_transaction_output\<close> writes under \<open>(workflow_uuid, function_id)\<close> has the
  argument's output and a null error, the row that \<open>record_transaction_error_async\<close>
  writes has a null output and the argument's error, and neither touches another row. So
  every row written has at most one of output and error non-null.
\<close>

theorem transaction_outputs_one_null:
  "(record_transaction_output fault xact_id txn_result tbl = Inr tbl' \<longrightarrow>
      (\<exists>row. tbl' (t_workflow_uuid txn_result, t_function_id txn_result) = Some row \<and>
             to_output row = t_output txn_result \<and> to_error row = None) \<and>
      (\<forall>key. key \<noteq> (t_workflow_uuid txn_result, t_function_id txn_result) \<longrightarrow> tbl' key = tbl key))
   \<and> (record_transaction_error_async fault xact_id txn_result tbl = Inr tbl' \<longrightarrow>
      (\<exists>row. tbl' (t_workflow_uuid txn_result, t_function_id txn_result) = Some row \<and>
             to_output row = None \<and> to_error row = t_error txn_result) \<and>
      (\<forall>key. key \<noteq> (t_workflow_uuid txn_result, t_function_id txn_result) \<longrightarrow> tbl' key = tbl key))"
  by (auto simp: record_transaction_output_def record_transaction_error_async_def
        insert_transaction_outputs_def split: option.splits if_splits)

text \<open>An argument with both fields set, recorded as an output: the error is dropped.\<close>

theorem transaction_outputs_one_null_witness:
  "record_transaction_output None (Some ''731'')
     \<lparr> t_workflow_uuid = ''W'', t_function_id = 1, t_output = Some ''out'',
       t_error = Some ''err'', t_txn_id = None, t_txn_snapshot = ''snap'',
       t_executor_id = Some ''local'' \<rparr> Map.empty =
     Inr [(''W'', 1) \<mapsto>
            \<lparr> to_output = Some ''out'', to_error = None, to_txn_id = Some ''731'',
              to_txn_snapshot = ''snap'', to_executor_id = Some ''local'' \<rparr>]
   \<and> (\<exists>row. [(''W'', 1) \<mapsto>
            \<lparr> to_output = Some ''out'', to_error = None, to_txn_id = Some ''731'',
              to_txn_snapshot = ''snap'', to_executor_id = Some ''local'' \<rparr>] (''W'', 1) = Some row \<and>
          to_output row = Some ''out'' \<and> to_error row = None)"
proof -
  have written:
    "record_transaction_output None (Some ''731'')
       \<lparr> t_workflow_uuid = ''W'', t_function_id = 1, t_output = Some ''out'',
         t_error = Some ''err'', t_txn_id = None, t_txn_snapshot = ''snap'',
         t_executor_id = Some ''local'' \<rparr> Map.empty =
       Inr [(''W'', 1) \<mapsto>
              \<lparr> to_output = Some ''out'', to_error = None, to_txn_id = Some ''731'',
                to_txn_snapshot = ''snap'', to_executor_id = Some ''local'' \<rparr>]"
    by (simp add: record_transaction_output_def insert_transaction_outputs_def)
  from written transaction_outputs_one_null
      [where fault = None and xact_id = "Some ''731''"
       and txn_result = "\<lparr> t_workflow_uuid = ''W'', t_function_id = 1, t_output = Some ''out'',
         t_error = Some ''err'', t_txn_id = None, t_txn_snapshot = ''snap'',
         t_executor_id = Some ''local'' \<rparr>"
       and tbl = Map.empty
       and tbl' = "[(''W'', 1) \<mapsto>
              \<lparr> to_output = Some ''out'', to_error = None, to_txn_id = Some ''731'',
                to_txn_snapshot = ''snap'', to_executor_id = Some ''local'' \<rparr>]"]
  show ?thesis by simp
qed

section \<open>Theorems on the buffered writer\<close>

lemma map_of_dict_pop: "map_of (dict_pop k d) u = (if u = k then None else map_of d u)"
  by (induction d) (auto simp: dict_pop_def)

lemma map_of_map_replace:
  "map_of (map (\<lambda>kv. if fst kv = k then (k, v) else kv) d) u =
     (if u = k then map_option (\<lambda>_. v) (map_of d k) else map_of d u)"
  by (induction d) auto

lemma map_of_dict_set: "map_of (dict_set k v d) u = (if u = k then Some v else map_of d u)"
  by (auto simp: dict_set_def map_of_map_replace map_add_def split: option.splits)

lemma map_of_dict_update_other:
  "u \<notin> fst ` set other \<Longrightarrow> map_of (dict_update d other) u = map_of d u"
  unfolding dict_update_def
  by (induction other arbitrary: d) (auto simp: map_of_dict_set)

lemma keys_dict_set: "u \<in> fst ` set (dict_set k v d) \<Longrightarrow> u = k \<or> u \<in> fst ` set d"
  by (auto simp: dict_set_def split: if_splits)

lemma update_workflow_inputs_Inr:
  assumes "update_workflow_inputs fault w i s1 = Inr s2"
  shows "workflow_status (sdb s2) = workflow_status (sdb s1)"
    and "exported_temp_txn_wf_status s2 \<subseteq> exported_temp_txn_wf_status s1"
    and "workflow_inputs_buffer s2 = workflow_inputs_buffer s1"
    and "workflow_inputs (sdb s2) k \<noteq> workflow_inputs (sdb s1) k \<Longrightarrow>
           k = w \<and> workflow_status (sdb s1) w \<noteq> None"
  using assms
  by (auto simp: update_workflow_inputs_def insert_workflow_inputs_def
      split: option.splits if_splits sum.splits)

lemma flush_inputs_loop_keeps:
  "u \<notin> exported_temp_txn_wf_status s \<Longrightarrow> u \<notin> fst ` set exported_inputs \<Longrightarrow>
   map_of (workflow_inputs_buffer (flush_inputs_loop fault db0 ks n exported_inputs s)) u =
     map_of (workflow_inputs_buffer s) u"
proof (induction ks arbitrary: n exported_inputs s)
  case Nil
  show ?case by simp
next
  case (Cons w ks)
  note ih = Cons.IH and us = Cons.prems(1) and ue = Cons.prems(2)
  consider (full) "\<not> n < buffer_flush_batch_size"
    | (skip) "n < buffer_flush_batch_size" "w \<notin> exported_temp_txn_wf_status s"
    | (gone) "n < buffer_flush_batch_size" "w \<in> exported_temp_txn_wf_status s"
        "map_of (workflow_inputs_buffer s) w = None"
    | (pop) i where "n < buffer_flush_batch_size" "w \<in> exported_temp_txn_wf_status s"
        "map_of (workflow_inputs_buffer s) w = Some i"
    by (cases "map_of (workflow_inputs_buffer s) w") blast+
  then show ?case
  proof cases
    case full
    then show ?thesis by simp
  next
    case skip
    then have "flush_inputs_loop fault db0 (w # ks) n exported_inputs s =
        flush_inputs_loop fault db0 ks n exported_inputs s" by simp
    with ih[OF us ue] show ?thesis by simp
  next
    case gone
    then have "flush_inputs_loop fault db0 (w # ks) n exported_inputs s =
        flush_inputs_loop fault db0 ks n exported_inputs s" by simp
    with ih[OF us ue] show ?thesis by simp
  next
    case pop
    from pop(2) us have ne: "u \<noteq> w" by blast
    define s1 where "s1 = s\<lparr>workflow_inputs_buffer := dict_pop w (workflow_inputs_buffer s)\<rparr>"
    define e where "e = dict_set w i exported_inputs"
    have ue': "u \<notin> fst ` set e"
      using ne ue keys_dict_set[of u w i exported_inputs] unfolding e_def by blast
    have b1: "map_of (workflow_inputs_buffer s1) u = map_of (workflow_inputs_buffer s) u"
      using ne by (simp add: s1_def map_of_dict_pop)
    have x1: "exported_temp_txn_wf_status s1 = exported_temp_txn_wf_status s"
      by (simp add: s1_def)
    show ?thesis
    proof (cases "update_workflow_inputs (fault w) w i s1")
      case (Inl err)
      with pop have "flush_inputs_loop fault db0 (w # ks) n exported_inputs s =
          s1\<lparr>sdb := db0,
             workflow_inputs_buffer := dict_update (workflow_inputs_buffer s1) e\<rparr>"
        by (simp add: Let_def s1_def e_def)
      then show ?thesis using ue' b1 by (simp add: map_of_dict_update_other)
    next
      case (Inr s2)
      with pop have step: "flush_inputs_loop fault db0 (w # ks) n exported_inputs s =
          flush_inputs_loop fault db0 ks (n + 1) e s2"
        by (simp add: Let_def s1_def e_def)
      from update_workflow_inputs_Inr(2)[OF Inr] us x1
      have us2: "u \<notin> exported_temp_txn_wf_status s2" by blast
      from update_workflow_inputs_Inr(3)[OF Inr] b1
      have b2: "map_of (workflow_inputs_buffer s2) u = map_of (workflow_inputs_buffer s) u"
        by simp
      from ih[OF us2 ue', of "n + 1"] b2 show ?thesis unfolding step by simp
    qed
  qed
qed

lemma flush_inputs_loop_writes:
  "workflow_status (sdb s) = workflow_status db0 \<Longrightarrow>
   exported_temp_txn_wf_status s \<subseteq> E \<Longrightarrow>
   (\<forall>u. workflow_inputs (sdb s) u \<noteq> workflow_inputs db0 u \<longrightarrow>
        u \<in> E \<and> workflow_status db0 u \<noteq> None) \<Longrightarrow>
   workflow_status (sdb (flush_inputs_loop fault db0 ks n exported_inputs s)) =
     workflow_status db0 \<and>
   (\<forall>u. workflow_inputs (sdb (flush_inputs_loop fault db0 ks n exported_inputs s)) u \<noteq>
          workflow_inputs db0 u \<longrightarrow> u \<in> E \<and> workflow_status db0 u \<noteq> None)"
proof (induction ks arbitrary: n exported_inputs s)
  case Nil
  then show ?case by simp
next
  case (Cons w ks)
  note ih = Cons.IH and p1 = Cons.prems(1) and p2 = Cons.prems(2) and p3 = Cons.prems(3)
  consider (full) "\<not> n < buffer_flush_batch_size"
    | (skip) "n < buffer_flush_batch_size" "w \<notin> exported_temp_txn_wf_status s"
    | (gone) "n < buffer_flush_batch_size" "w \<in> exported_temp_txn_wf_status s"
        "map_of (workflow_inputs_buffer s) w = None"
    | (pop) i where "n < buffer_flush_batch_size" "w \<in> exported_temp_txn_wf_status s"
        "map_of (workflow_inputs_buffer s) w = Some i"
    by (cases "map_of (workflow_inputs_buffer s) w") blast+
  then show ?case
  proof cases
    case full
    then have "flush_inputs_loop fault db0 (w # ks) n exported_inputs s = s" by simp
    with p1 p3 show ?thesis by simp
  next
    case skip
    then have "flush_inputs_loop fault db0 (w # ks) n exported_inputs s =
        flush_inputs_loop fault db0 ks n exported_inputs s" by simp
    with ih[OF p1 p2 p3] show ?thesis by simp
  next
    case gone
    then have "flush_inputs_loop fault db0 (w # ks) n exported_inputs s =
        flush_inputs_loop fault db0 ks n exported_inputs s" by simp
    with ih[OF p1 p2 p3] show ?thesis by simp
  next
    case pop
    define s1 where "s1 = s\<lparr>workflow_inputs_buffer := dict_pop w (workflow_inputs_buffer s)\<rparr>"
    define e where "e = dict_set w i exported_inputs"
    have d1: "sdb s1 = sdb s" and x1: "exported_temp_txn_wf_status s1 = exported_temp_txn_wf_status s"
      by (simp_all add: s1_def)
    show ?thesis
    proof (cases "update_workflow_inputs (fault w) w i s1")
      case (Inl err)
      with pop have "flush_inputs_loop fault db0 (w # ks) n exported_inputs s =
          s1\<lparr>sdb := db0,
             workflow_inputs_buffer := dict_update (workflow_inputs_buffer s1) e\<rparr>"
        by (simp add: Let_def s1_def e_def)
      then show ?thesis by simp
    next
      case (Inr s2)
      with pop have step: "flush_inputs_loop fault db0 (w # ks) n exported_inputs s =
          flush_inputs_loop fault db0 ks (n + 1) e s2"
        by (simp add: Let_def s1_def e_def)
      note f = update_workflow_inputs_Inr[OF Inr]
      have a: "workflow_status (sdb s2) = workflow_status db0"
        using f(1) p1 d1 by simp
      have b: "exported_temp_txn_wf_status s2 \<subseteq> E"
        using f(2) p2 x1 by blast
      have c: "\<forall>u. workflow_inputs (sdb s2) u \<noteq> workflow_inputs db0 u \<longrightarrow>
          u \<in> E \<and> workflow_status db0 u \<noteq> None"
      proof (intro allI impI)
        fix u assume d: "workflow_inputs (sdb s2) u \<noteq> workflow_inputs db0 u"
        show "u \<in> E \<and> workflow_status db0 u \<noteq> None"
        proof (cases "workflow_inputs (sdb s2) u = workflow_inputs (sdb s1) u")
          case True
          with d d1 have "workflow_inputs (sdb s) u \<noteq> workflow_inputs db0 u" by simp
          with p3 show ?thesis by blast
        next
          case False
          from f(4)[OF False] have "u = w" and "workflow_status (sdb s1) w \<noteq> None"
            by blast+
          with pop(2) p2 p1 d1 show ?thesis by auto
        qed
      qed
      from ih[OF a b c, of "n + 1" e] show ?thesis unfolding step .
    qed
  qed
qed

lemma update_workflow_status_Inr:
  assumes "update_workflow_status fault st r ir s1 = Inr s2"
  shows "workflow_inputs (sdb s2) = workflow_inputs (sdb s1)"
    and "workflow_inputs_buffer s2 = workflow_inputs_buffer s1"
    and "temp_txn_wf_ids s2 = temp_txn_wf_ids s1"
    and "workflow_status (sdb s1) u \<noteq> None \<Longrightarrow> workflow_status (sdb s2) u \<noteq> None"
  using assms
  by (auto simp: update_workflow_status_def upsert_workflow_status_def
      split: option.splits if_splits sum.splits)

lemma flush_status_loop_keeps:
  "workflow_inputs (sdb s) = workflow_inputs db0 \<Longrightarrow>
   (\<forall>u. workflow_status db0 u \<noteq> None \<longrightarrow> workflow_status (sdb s) u \<noteq> None) \<Longrightarrow>
   workflow_inputs (sdb (flush_status_loop fault db0 ks n exported_status s)) =
     workflow_inputs db0 \<and>
   (\<forall>u. workflow_status db0 u \<noteq> None \<longrightarrow>
        workflow_status (sdb (flush_status_loop fault db0 ks n exported_status s)) u \<noteq> None) \<and>
   workflow_inputs_buffer (flush_status_loop fault db0 ks n exported_status s) =
     workflow_inputs_buffer s \<and>
   temp_txn_wf_ids (flush_status_loop fault db0 ks n exported_status s) = temp_txn_wf_ids s"
proof (induction ks arbitrary: n exported_status s)
  case Nil
  then show ?case by simp
next
  case (Cons w ks)
  show ?case
  proof (cases "n < buffer_flush_batch_size")
    case False
    with Cons show ?thesis by auto
  next
    case batch: True
    show ?thesis
    proof (cases "map_of (workflow_status_buffer s) w")
      case None
      with batch Cons show ?thesis by simp
    next
      case (Some st)
      let ?s1 = "s\<lparr>workflow_status_buffer := dict_pop w (workflow_status_buffer s)\<rparr>"
      let ?e = "dict_set w st exported_status"
      show ?thesis
      proof (cases "update_workflow_status (fault w) st True False ?s1")
        case (Inl e)
        with batch Some show ?thesis by (simp add: Let_def)
      next
        case (Inr s2)
        note f = update_workflow_status_Inr[OF Inr]
        have a: "workflow_inputs (sdb s2) = workflow_inputs db0"
          using f(1) Cons.prems(1) by simp
        have b: "\<forall>u. workflow_status db0 u \<noteq> None \<longrightarrow> workflow_status (sdb s2) u \<noteq> None"
          using f(4) Cons.prems(2) by simp
        from Cons.IH[OF a b, of "n + 1" ?e] f(2,3) batch Some Inr show ?thesis
          by (simp add: Let_def)
      qed
    qed
  qed
qed


lemma flush_workflow_status_buffer_keeps:
  "workflow_inputs (sdb (flush_workflow_status_buffer fault s)) = workflow_inputs (sdb s) \<and>
   (\<forall>u. workflow_status (sdb s) u \<noteq> None \<longrightarrow>
        workflow_status (sdb (flush_workflow_status_buffer fault s)) u \<noteq> None) \<and>
   workflow_inputs_buffer (flush_workflow_status_buffer fault s) = workflow_inputs_buffer s \<and>
   temp_txn_wf_ids (flush_workflow_status_buffer fault s) = temp_txn_wf_ids s"
  using flush_status_loop_keeps[of s "sdb s" fault "map fst (workflow_status_buffer s)" 0 "[]"]
  by (simp add: flush_workflow_status_buffer_def)

lemma flush_workflow_inputs_buffer_writes:
  "workflow_status (sdb (flush_workflow_inputs_buffer fault s)) = workflow_status (sdb s) \<and>
   (\<forall>u. workflow_inputs (sdb (flush_workflow_inputs_buffer fault s)) u \<noteq>
          workflow_inputs (sdb s) u \<longrightarrow>
        u \<in> exported_temp_txn_wf_status s \<and> workflow_status (sdb s) u \<noteq> None)"
  using flush_inputs_loop_writes[of s "sdb s" "exported_temp_txn_wf_status s" fault
          "map fst (workflow_inputs_buffer s)" 0 "[]"]
  by (simp add: flush_workflow_inputs_buffer_def)

lemma flush_workflow_inputs_buffer_keeps:
  "u \<notin> exported_temp_txn_wf_status s \<Longrightarrow>
   map_of (workflow_inputs_buffer (flush_workflow_inputs_buffer fault s)) u =
     map_of (workflow_inputs_buffer s) u"
  using flush_inputs_loop_keeps[of u s "[]" fault "sdb s" "map fst (workflow_inputs_buffer s)" 0]
  by (simp add: flush_workflow_inputs_buffer_def)

text \<open>
  C9. Take a state whose database satisfies the foreign key (every \<open>workflow_inputs\<close>
  row has its \<open>workflow_status\<close> row), and any failures of the writes. A flush pass is
  the flush of the status buffer followed by the flush of the inputs buffer. After the
  pass the foreign key still holds. Every \<open>workflow_inputs\<close> row that the pass wrote
  belongs to a workflow whose \<open>workflow_status\<close> row was in the database when the status
  flush had ended, and whose uuid was then in \<open>exported_temp_txn_wf_status\<close> or not in
  \<open>temp_txn_wf_ids\<close>. Every buffered inputs row whose uuid fails that gate is still in
  the inputs buffer, with its value, after the pass.
\<close>

theorem flush_workflow_buffers_status_before_inputs:
  "(\<forall>u. workflow_inputs (sdb s) u \<noteq> None \<longrightarrow> workflow_status (sdb s) u \<noteq> None) \<Longrightarrow>
   flush_workflow_buffers_pass fault_status fault_inputs s =
     flush_workflow_inputs_buffer fault_inputs (flush_workflow_status_buffer fault_status s)
   \<and> (\<forall>u. workflow_inputs (sdb (flush_workflow_buffers_pass fault_status fault_inputs s)) u
             \<noteq> None \<longrightarrow>
           workflow_status (sdb (flush_workflow_buffers_pass fault_status fault_inputs s)) u
             \<noteq> None)
   \<and> (\<forall>u. workflow_inputs (sdb (flush_workflow_buffers_pass fault_status fault_inputs s)) u
             \<noteq> workflow_inputs (sdb s) u \<longrightarrow>
           workflow_status (sdb (flush_workflow_status_buffer fault_status s)) u \<noteq> None \<and>
           (u \<in> exported_temp_txn_wf_status (flush_workflow_status_buffer fault_status s) \<or>
            u \<notin> temp_txn_wf_ids (flush_workflow_status_buffer fault_status s)))
   \<and> (\<forall>u v. map_of (workflow_inputs_buffer s) u = Some v \<and>
           \<not> (u \<in> exported_temp_txn_wf_status (flush_workflow_status_buffer fault_status s) \<or>
              u \<notin> temp_txn_wf_ids (flush_workflow_status_buffer fault_status s)) \<longrightarrow>
           map_of (workflow_inputs_buffer
                     (flush_workflow_buffers_pass fault_status fault_inputs s)) u = Some v)"
proof -
  assume fk: "\<forall>u. workflow_inputs (sdb s) u \<noteq> None \<longrightarrow> workflow_status (sdb s) u \<noteq> None"
  define mid where "mid = flush_workflow_status_buffer fault_status s"
  define fin where "fin = flush_workflow_inputs_buffer fault_inputs mid"
  have pass: "flush_workflow_buffers_pass fault_status fault_inputs s = fin"
    by (simp add: flush_workflow_buffers_pass_def fin_def mid_def)
  note m = flush_workflow_status_buffer_keeps[of fault_status s, folded mid_def]
  note w = flush_workflow_inputs_buffer_writes[of fault_inputs mid, folded fin_def]
  have fk_mid: "\<forall>u. workflow_inputs (sdb mid) u \<noteq> None \<longrightarrow> workflow_status (sdb mid) u \<noteq> None"
    using fk m by simp
  have c2: "\<forall>u. workflow_inputs (sdb fin) u \<noteq> None \<longrightarrow> workflow_status (sdb fin) u \<noteq> None"
  proof (intro allI impI)
    fix u assume a: "workflow_inputs (sdb fin) u \<noteq> None"
    show "workflow_status (sdb fin) u \<noteq> None"
    proof (cases "workflow_inputs (sdb fin) u = workflow_inputs (sdb mid) u")
      case True
      with a fk_mid w show ?thesis by simp
    next
      case False
      with w show ?thesis by simp
    qed
  qed
  have c3: "\<forall>u. workflow_inputs (sdb fin) u \<noteq> workflow_inputs (sdb s) u \<longrightarrow>
      workflow_status (sdb mid) u \<noteq> None \<and>
      (u \<in> exported_temp_txn_wf_status mid \<or> u \<notin> temp_txn_wf_ids mid)"
    using w m by simp
  have c4: "\<forall>u v. map_of (workflow_inputs_buffer s) u = Some v \<and>
      \<not> (u \<in> exported_temp_txn_wf_status mid \<or> u \<notin> temp_txn_wf_ids mid) \<longrightarrow>
      map_of (workflow_inputs_buffer fin) u = Some v"
  proof (intro allI impI)
    fix u v
    assume a: "map_of (workflow_inputs_buffer s) u = Some v \<and>
      \<not> (u \<in> exported_temp_txn_wf_status mid \<or> u \<notin> temp_txn_wf_ids mid)"
    then have "u \<notin> exported_temp_txn_wf_status mid" by blast
    from flush_workflow_inputs_buffer_keeps[OF this, of fault_inputs, folded fin_def] a m
    show "map_of (workflow_inputs_buffer fin) u = Some v" by simp
  qed
  from pass c2 c3 c4 show ?thesis
    unfolding pass unfolding fin_def mid_def by blast
qed


text \<open>
  The scenario S5 of the specification: the status and then the inputs of \<open>W\<close> are
  buffered; one pass writes the status row and then the inputs row. When only the inputs
  of \<open>W\<close> are buffered, the pass leaves them in the buffer.
\<close>

theorem flush_workflow_buffers_status_before_inputs_witness:
  "workflow_inputs (sdb (flush_workflow_buffers_pass (\<lambda>w. None) (\<lambda>w. None)
       (buffer_workflow_inputs ''W'' ''in''
          (buffer_workflow_status (example_status ''W'' SUCCESS)
             (init_SystemDatabase empty_sysdb))))) ''W'' = Some ''in''
   \<and> workflow_status (sdb (flush_workflow_status_buffer (\<lambda>w. None)
       (buffer_workflow_inputs ''W'' ''in''
          (buffer_workflow_status (example_status ''W'' SUCCESS)
             (init_SystemDatabase empty_sysdb))))) ''W'' \<noteq> None
   \<and> map_of (workflow_inputs_buffer (flush_workflow_buffers_pass (\<lambda>w. None) (\<lambda>w. None)
       (buffer_workflow_inputs ''W'' ''in'' (init_SystemDatabase empty_sysdb)))) ''W'' =
       Some ''in''"
proof -
  let ?s5 = "buffer_workflow_inputs ''W'' ''in''
          (buffer_workflow_status (example_status ''W'' SUCCESS)
             (init_SystemDatabase empty_sysdb))"
  let ?s6 = "buffer_workflow_inputs ''W'' ''in'' (init_SystemDatabase empty_sysdb)"
  have fk5: "\<forall>u. workflow_inputs (sdb ?s5) u \<noteq> None \<longrightarrow> workflow_status (sdb ?s5) u \<noteq> None"
    by (simp add: buffer_workflow_inputs_def buffer_workflow_status_def
          init_SystemDatabase_def empty_sysdb_def)
  have fk6: "\<forall>u. workflow_inputs (sdb ?s6) u \<noteq> None \<longrightarrow> workflow_status (sdb ?s6) u \<noteq> None"
    by (simp add: buffer_workflow_inputs_def init_SystemDatabase_def empty_sysdb_def)
  have before: "workflow_inputs (sdb ?s5) ''W'' = None"
    by (simp add: buffer_workflow_inputs_def buffer_workflow_status_def
          init_SystemDatabase_def empty_sysdb_def)
  have written: "workflow_inputs (sdb (flush_workflow_buffers_pass (\<lambda>w. None) (\<lambda>w. None) ?s5))
      ''W'' = Some ''in''"
    by (simp add: flush_workflow_buffers_pass_def flush_workflow_inputs_buffer_def
     flush_workflow_status_buffer_def buffer_workflow_inputs_def buffer_workflow_status_def
     init_SystemDatabase_def empty_sysdb_def example_status_def
     dict_set_def dict_pop_def update_workflow_status_def
     upsert_workflow_status_def update_workflow_inputs_def insert_workflow_inputs_def
     buffer_flush_batch_size_def Let_def)
  have buffered: "map_of (workflow_inputs_buffer ?s6) ''W'' = Some ''in''"
    and gate: "\<not> (''W'' \<in> exported_temp_txn_wf_status
                  (flush_workflow_status_buffer (\<lambda>w. None) ?s6) \<or>
               ''W'' \<notin> temp_txn_wf_ids (flush_workflow_status_buffer (\<lambda>w. None) ?s6))"
    by (simp_all add: flush_workflow_status_buffer_def buffer_workflow_inputs_def
          init_SystemDatabase_def dict_set_def)
  from flush_workflow_buffers_status_before_inputs
         [OF fk5, of "\<lambda>w. None" "\<lambda>w. None"] written before
  have durable: "workflow_status (sdb (flush_workflow_status_buffer (\<lambda>w. None) ?s5)) ''W''
      \<noteq> None"
    by (metis option.distinct(1))
  from flush_workflow_buffers_status_before_inputs
         [OF fk6, of "\<lambda>w. None" "\<lambda>w. None"] buffered gate
  have kept: "map_of (workflow_inputs_buffer
      (flush_workflow_buffers_pass (\<lambda>w. None) (\<lambda>w. None) ?s6)) ''W'' = Some ''in''"
    by blast
  from written durable kept show ?thesis by blast
qed

end
